theory Spec2Isabelle
  imports Main "HOL-Library.Multiset"
begin

section \<open>Server startup of LibHTTP: \<open>mg_start\<close> (src/httplib_start.c)\<close>

text \<open>
  \<open>mg_start\<close> allocates a server context, initialises the process-wide thread-local
  storage key, parses the option list, runs the configuration collaborators, allocates
  the worker pool and starts the master and worker threads. Every step that can fail
  returns \<open>NULL\<close> after releasing the context.

  The function is modelled with explicit state passing. The \<open>world\<close> record holds what
  the function changes outside its own context (live allocations, log, running threads,
  the static variables \<open>sTlsInit\<close> and \<open>thread_idx_max\<close>); the \<open>env\<close> record holds
  the outcome of every call whose result the source tests (allocation, thread creation,
  the configuration collaborators) and of the C library's \<open>atoi\<close>.
\<close>

subsection \<open>Compile-time configuration\<close>

text \<open>
  The preprocessor switches that select code inside \<open>mg_start\<close>, together with the
  constants of libhttp-private.h that the function reads: the option table
  \<open>config_options\<close> (name and default value of every option, in index order), the
  indices \<open>NUM_THREADS\<close> and \<open>DOCUMENT_ROOT\<close> and the limit \<open>MAX_WORKER_THREADS\<close>.
  The header is not part of the sources at hand, so these are parameters.
  \<open>USE_LUA\<close> and \<open>USE_WEBSOCKET\<close> only add calls without effect on the state modelled
  here and are left out, as are \<open>WSAStartup\<close>, the nonce mask, \<open>user_data\<close>,
  \<open>handlers\<close> and the \<open>SIGPIPE\<close> disposition.
\<close>

type_synonym option_table = "(string \<times> string option) list"

record build =
  WIN32 :: bool
  ALTERNATIVE_QUEUE :: bool
  NO_SSL :: bool
  NO_FILES :: bool
  USE_TIMERS :: bool
  config_options :: option_table
  NUM_THREADS :: nat
  DOCUMENT_ROOT :: nat
  MAX_WORKER_THREADS :: int

subsection \<open>Resources, threads, messages\<close>

datatype resource =
    ContextBlock
  | StringBlock string
  | WorkerThreadIds
  | ClientWaitEvents
  | ClientSocks
  | EventObject nat
  | WorkerArgs nat

datatype thread = MasterThread | WorkerThread nat

datatype sync_object = thread_mutex | sq_empty | sq_full | nonce_mutex

datatype collaborator =
    set_gpass_option
  | set_ssl_option
  | set_ports_option
  | set_uid_option
  | set_acl_option

text \<open>The diagnostics passed to \<open>mg_cry\<close>, one constructor per format string.\<close>

datatype message =
    CannotInitTls
  | CannotInitSync
  | InvalidOption string
  | OptionValueNull string
  | DuplicateOption string
  | DocumentRootSet
  | TooManyWorkerThreads
  | NoMemoryWorkerIds
  | NoMemoryWorkerEvents
  | NoMemoryWorkerSockets
  | ErrorCreatingEvent nat
  | ErrorCreatingTimers
  | CannotStartWorker nat
  | CannotCreateThreads

subsection \<open>Environment, context and world\<close>

text \<open>
  The outcome of the calls whose result \<open>mg_start\<close> tests or stores. \<open>alloc_ok r\<close>
  says that the \<open>mg_calloc\<close>, \<open>mg_malloc\<close> or \<open>mg_strdup\<close> call for \<open>r\<close> returns a
  block;
  \<open>thread_start_ok t\<close> that \<open>mg_start_thread_with_id\<close> returns 0 for \<open>t\<close>;
  \<open>apply_ok c\<close> that the collaborator \<open>c\<close> returns nonzero.
\<close>

record env =
  alloc_ok :: "resource \<Rightarrow> bool"
  pthread_key_create_ok :: bool
  sync_init_ok :: "sync_object \<Rightarrow> bool"
  system_name :: string
  apply_ok :: "collaborator \<Rightarrow> bool"
  atoi :: "string \<Rightarrow> int"
  event_create_ok :: "nat \<Rightarrow> bool"
  timers_init_ok :: bool
  thread_start_ok :: "thread \<Rightarrow> bool"

text \<open>The two members of \<open>struct mg_callbacks\<close> that \<open>mg_start\<close> looks at: set or not.\<close>

record mg_callbacks =
  init_context :: bool
  exit_context :: bool

text \<open>
  The fields of \<open>struct mg_context\<close> that \<open>mg_start\<close> writes. A pointer field is
  \<open>None\<close> when it is \<open>NULL\<close>. \<open>workerthreadids\<close> and \<open>client_wait_events\<close> hold one flag
  per array element: whether a thread handle, or an event, has been stored there.
\<close>

record mg_context =
  callbacks_init_context :: bool
  callbacks_exit_context :: bool
  config :: "string option list"
  systemName :: "string option"
  cfg_worker_threads :: nat
  workerthreadids :: "bool list option"
  client_wait_events :: "bool list option"
  client_socks :: "nat option"
  masterthreadid :: bool
  context_type :: nat

record world =
  heap :: "resource list"
  allocated :: "resource list"
  double_frees :: "resource list"
  cry :: "message list"
  called :: "collaborator list"
  running :: "thread list"
  spawn_attempts :: "thread list"
  sTlsInit :: int
  tls_keys :: nat
  tls_slot :: bool
  thread_idx_max :: int
  sleeps :: nat
  init_context_calls :: nat

text \<open>
  What a call of \<open>mg_start\<close> does: it returns \<open>NULL\<close>, it returns the context, or it
  passes a null pointer to \<open>atoi\<close>.
\<close>

datatype outcome = NullDeref | ReturnedNULL | Returned mg_context

type_synonym 'a step = "(outcome \<times> world) + 'a"

definition and_then :: "'a step \<Rightarrow> ('a \<Rightarrow> 'b step) \<Rightarrow> 'b step" where
  "and_then m f = (case m of Inl r \<Rightarrow> Inl r | Inr x \<Rightarrow> f x)"

subsection \<open>Library calls\<close>

text \<open>
  A successful \<open>mg_calloc\<close>, \<open>mg_malloc\<close>, \<open>mg_strdup\<close> or \<open>event_create\<close>: the resource
  becomes live and is entered in the allocation history.
\<close>

definition mg_alloc :: "resource \<Rightarrow> world \<Rightarrow> world" where
  "mg_alloc r w = w\<lparr>heap := r # heap w, allocated := allocated w @ [r]\<rparr>"

text \<open>
  \<open>mg_free\<close> of a live resource releases it. Releasing what is not live is undefined in
  C; here it leaves the heap as it is and is recorded in \<open>double_frees\<close>.
\<close>

definition mg_free :: "resource \<Rightarrow> world \<Rightarrow> world" where
  "mg_free r w =
     (if r \<in> set (heap w) then w\<lparr>heap := remove1 r (heap w)\<rparr>
      else w\<lparr>double_frees := double_frees w @ [r]\<rparr>)"

text \<open>
  \<open>mg_strdup\<close> copies a string into a block of its own and returns the block, or
  \<open>NULL\<close> when the allocation fails. The result is the pointer returned and the world
  after the call.
\<close>

definition mg_strdup :: "env \<Rightarrow> string \<Rightarrow> world \<Rightarrow> string option \<times> world" where
  "mg_strdup e s w =
     (if alloc_ok e (StringBlock s) then (Some s, mg_alloc (StringBlock s) w)
      else (None, w))"

definition mg_cry :: "message \<Rightarrow> world \<Rightarrow> world" where
  "mg_cry m w = w\<lparr>cry := cry w @ [m]\<rparr>"

text \<open>\<open>pthread_setspecific(sTlsKey, p)\<close>: the flag says whether \<open>p\<close> is not \<open>NULL\<close>.\<close>

definition pthread_setspecific :: "bool \<Rightarrow> world \<Rightarrow> world" where
  "pthread_setspecific p w = w\<lparr>tls_slot := p\<rparr>"

text \<open>
  Modelled from the spec: \<open>get_option_index\<close> is missing from the sources. Each option
  name must resolve to a known option index: the position of the name in the option
  table, or nothing (\<open>-1\<close> in C) when the table does not have it.
\<close>

fun get_option_index :: "option_table \<Rightarrow> string \<Rightarrow> nat option" where
  "get_option_index [] name = None"
| "get_option_index ((n, d) # table) name =
     (if n = name then Some 0 else map_option Suc (get_option_index table name))"

text \<open>
  Modelled from the spec: \<open>free_context\<close> is missing from the sources. Rollback is the
  release of every resource allocated during the startup attempt: all context-owned
  resources (configuration strings, slot arrays and their events, the worker-handle
  list) and the context itself. Thread creation is irreversible once performed:
  \<open>free_context\<close> releases memory and signals or joins no thread.
\<close>

definition config_strings :: "mg_context \<Rightarrow> string list" where
  "config_strings ctx = concat (map (\<lambda>v. case v of None \<Rightarrow> [] | Some s \<Rightarrow> [s]) (config ctx))"

definition created_events :: "bool list \<Rightarrow> nat list" where
  "created_events evs = filter (\<lambda>i. evs ! i) [0..<length evs]"

definition owned :: "mg_context \<Rightarrow> resource list" where
  "owned ctx =
     (case client_socks ctx of None \<Rightarrow> [] | Some n \<Rightarrow> [ClientSocks])
     @ (case client_wait_events ctx of None \<Rightarrow> []
        | Some evs \<Rightarrow> map EventObject (created_events evs) @ [ClientWaitEvents])
     @ (case workerthreadids ctx of None \<Rightarrow> [] | Some ids \<Rightarrow> [WorkerThreadIds])
     @ (case systemName ctx of None \<Rightarrow> [] | Some s \<Rightarrow> [StringBlock s])
     @ map StringBlock (config_strings ctx)
     @ [ContextBlock]"

definition free_context :: "mg_context \<Rightarrow> world \<Rightarrow> world" where
  "free_context ctx w = fold mg_free (owned ctx) w"

text \<open>The failure exit used after the options are parsed: lines 129--131 and alike.\<close>

definition abort_start :: "mg_context \<Rightarrow> world \<Rightarrow> 'a step" where
  "abort_start ctx w = Inl (ReturnedNULL, pthread_setspecific False (free_context ctx w))"

subsection \<open>Lines 57--120: context, thread-local storage, synchronisation objects\<close>

definition zeroed_context :: "build \<Rightarrow> mg_context" where
  "zeroed_context b =
     \<lparr>callbacks_init_context = False, callbacks_exit_context = False,
      config = replicate (length (config_options b)) None, systemName = None,
      cfg_worker_threads = 0, workerthreadids = None, client_wait_events = None,
      client_socks = None, masterthreadid = False, context_type = 0\<rparr>"

definition allocate_context :: "build \<Rightarrow> env \<Rightarrow> world \<Rightarrow> (mg_context \<times> world) step" where
  "allocate_context b e w =
     (if alloc_ok e ContextBlock then Inr (zeroed_context b, mg_alloc ContextBlock w)
      else Inl (ReturnedNULL, w))"

text \<open>
  Lines 63--93. \<open>mg_atomic_inc\<close> returns the incremented value. The caller that reads 1
  creates the key; any other caller sleeps one millisecond.
\<close>

definition init_tls :: "env \<Rightarrow> mg_context \<Rightarrow> world \<Rightarrow> (mg_context \<times> world) step" where
  "init_tls e ctx w =
     (let w1 = w\<lparr>sTlsInit := sTlsInit w + 1\<rparr> in
      and_then
        (if sTlsInit w1 = 1 then
           (if pthread_key_create_ok e then Inr (w1\<lparr>tls_keys := Suc (tls_keys w1)\<rparr>)
            else Inl (ReturnedNULL,
                   mg_free ContextBlock
                     (mg_cry CannotInitTls (w1\<lparr>sTlsInit := sTlsInit w1 - 1\<rparr>))))
         else Inr (w1\<lparr>sleeps := Suc (sleeps w1)\<rparr>))
        (\<lambda>w2. Inr (ctx,
           pthread_setspecific True (w2\<lparr>thread_idx_max := thread_idx_max w2 + 1\<rparr>))))"

text \<open>Lines 99--112. All initialisers run (\<open>&=\<close> does not short-circuit).\<close>

definition init_sync ::
  "build \<Rightarrow> env \<Rightarrow> mg_context \<Rightarrow> world \<Rightarrow> (mg_context \<times> world) step" where
  "init_sync b e ctx w =
     (let ok = (sync_init_ok e thread_mutex
                \<and> (if ALTERNATIVE_QUEUE b then True
                   else sync_init_ok e sq_empty \<and> sync_init_ok e sq_full)
                \<and> sync_init_ok e nonce_mutex)
      in if ok then Inr (ctx, w)
         else Inl (ReturnedNULL,
                pthread_setspecific False (mg_free ContextBlock (mg_cry CannotInitSync w))))"

text \<open>Lines 114--118: the callbacks are copied, \<open>exit_context\<close> is held back.\<close>

definition store_callbacks :: "mg_callbacks option \<Rightarrow> mg_context \<Rightarrow> mg_context" where
  "store_callbacks callbacks ctx =
     (case callbacks of
        None \<Rightarrow> ctx
      | Some cb \<Rightarrow> ctx\<lparr>callbacks_init_context := init_context cb,
                      callbacks_exit_context := False\<rparr>)"

definition exit_callback :: "mg_callbacks option \<Rightarrow> bool" where
  "exit_callback callbacks = (case callbacks of None \<Rightarrow> False | Some cb \<Rightarrow> exit_context cb)"

subsection \<open>Lines 126--152: the option list and the defaults\<close>

text \<open>
  The option list is the sequence of strings before the terminating \<open>NULL\<close>. A name
  that is the last string has the terminator where its value should be.
\<close>

text \<open>
  Lines 138--142: a value already stored is released with a warning; then the slot takes
  what \<open>mg_strdup\<close> returns, which the source does not test.
\<close>

definition store_option ::
  "env \<Rightarrow> string \<Rightarrow> nat \<Rightarrow> string \<Rightarrow> mg_context \<Rightarrow> world \<Rightarrow> mg_context \<times> world" where
  "store_option e name idx val ctx w =
     (let w1 = (case config ctx ! idx of
                  None \<Rightarrow> w
                | Some old \<Rightarrow> mg_free (StringBlock old) (mg_cry (DuplicateOption name) w))
      in (ctx\<lparr>config := (config ctx)[idx := fst (mg_strdup e val w1)]\<rparr>,
          snd (mg_strdup e val w1)))"

fun parse_options ::
  "env \<Rightarrow> option_table \<Rightarrow> string list \<Rightarrow> mg_context \<Rightarrow> world
   \<Rightarrow> (mg_context \<times> world) step" where
  "parse_options e table [] ctx w = Inr (ctx, w)"
| "parse_options e table (name # options) ctx w =
     (case get_option_index table name of
        None \<Rightarrow> abort_start ctx (mg_cry (InvalidOption name) w)
      | Some idx \<Rightarrow>
          (case options of
             [] \<Rightarrow> abort_start ctx (mg_cry (OptionValueNull name) w)
           | val # options' \<Rightarrow>
               (case store_option e name idx val ctx w of
                  (ctx1, w1) \<Rightarrow> parse_options e table options' ctx1 w1)))"

text \<open>
  Lines 147--152, from index \<open>i\<close> on; the table argument is the rest of the table. An
  empty slot of an option with a default takes what \<open>mg_strdup\<close> returns.
\<close>

fun set_defaults ::
  "env \<Rightarrow> option_table \<Rightarrow> nat \<Rightarrow> mg_context \<Rightarrow> world \<Rightarrow> mg_context \<times> world" where
  "set_defaults e [] i ctx w = (ctx, w)"
| "set_defaults e ((name, default_value) # table) i ctx w =
     (case default_value of
        None \<Rightarrow> set_defaults e table (Suc i) ctx w
      | Some d \<Rightarrow>
          (if config ctx ! i = None
           then set_defaults e table (Suc i)
                  (ctx\<lparr>config := (config ctx)[i := fst (mg_strdup e d w)]\<rparr>)
                  (snd (mg_strdup e d w))
           else set_defaults e table (Suc i) ctx w))"

text \<open>
  Reading \<open>ctx->config[i]\<close> for an index constant. The constants of the C enumeration are
  below the table length; an index beyond it reads as \<open>NULL\<close> here.
\<close>

definition config_at :: "mg_context \<Rightarrow> nat \<Rightarrow> string option" where
  "config_at ctx i = (if i < length (config ctx) then config ctx ! i else None)"

definition configure ::
  "build \<Rightarrow> env \<Rightarrow> string list option \<Rightarrow> mg_context \<Rightarrow> world
   \<Rightarrow> (mg_context \<times> world) step" where
  "configure b e options ctx w =
     and_then
       (case options of None \<Rightarrow> Inr (ctx, w)
        | Some opts \<Rightarrow> parse_options e (config_options b) opts ctx w)
       (\<lambda>(ctx1, w1).
          (case set_defaults e (config_options b) 0 ctx1 w1 of
             (ctx2, w2) \<Rightarrow>
               (if NO_FILES b \<and> config_at ctx2 (DOCUMENT_ROOT b) \<noteq> None
                then abort_start ctx2 (mg_cry DocumentRootSet w2)
                else Inr (ctx2, w2))))"

subsection \<open>Lines 163--179: system name and configuration collaborators\<close>

text \<open>
  \<open>get_system_name\<close> is not in the sources at hand. By its call at line 163 it stores
  a copy of the system's name, made by \<open>mg_strdup\<close>, in \<open>ctx->systemName\<close>. The collaborators
  are external: of each only its result and the fact that it was called are modelled.
\<close>

definition get_system_name :: "env \<Rightarrow> mg_context \<Rightarrow> world \<Rightarrow> mg_context \<times> world" where
  "get_system_name e ctx w =
     (ctx\<lparr>systemName := fst (mg_strdup e (system_name e) w)\<rparr>,
      snd (mg_strdup e (system_name e) w))"

definition collaborators :: "build \<Rightarrow> collaborator list" where
  "collaborators b =
     [set_gpass_option]
     @ (if NO_SSL b then [] else [set_ssl_option])
     @ [set_ports_option]
     @ (if WIN32 b then [] else [set_uid_option])
     @ [set_acl_option]"

text \<open>
  The chain of \<open>||\<close> at lines 167--175: the collaborators are called from left to right
  until one returns zero. The result says whether one did.
\<close>

fun any_fails :: "env \<Rightarrow> collaborator list \<Rightarrow> world \<Rightarrow> bool \<times> world" where
  "any_fails e [] w = (False, w)"
| "any_fails e (c # cs) w =
     (let w1 = w\<lparr>called := called w @ [c]\<rparr>
      in if apply_ok e c then any_fails e cs w1 else (True, w1))"

definition resolve_settings ::
  "build \<Rightarrow> env \<Rightarrow> mg_context \<Rightarrow> world \<Rightarrow> (mg_context \<times> world) step" where
  "resolve_settings b e ctx w =
     (case get_system_name e ctx w of
        (ctx1, w1) \<Rightarrow>
          (case any_fails e (collaborators b) w1 of
             (failed, w2) \<Rightarrow> if failed then abort_start ctx1 w2 else Inr (ctx1, w2)))"

text \<open>Lines 57--161: the context with its configuration, before any collaborator runs.\<close>

definition initialise ::
  "build \<Rightarrow> env \<Rightarrow> mg_callbacks option \<Rightarrow> string list option \<Rightarrow> world
   \<Rightarrow> (mg_context \<times> world) step" where
  "initialise b e callbacks options w =
     and_then (allocate_context b e w) (\<lambda>(ctx, w).
     and_then (init_tls e ctx w) (\<lambda>(ctx, w).
     and_then (init_sync b e ctx w) (\<lambda>(ctx, w).
     configure b e options (store_callbacks callbacks ctx) w)))"

text \<open>Lines 57--185: everything before the worker count is read.\<close>

definition prepare ::
  "build \<Rightarrow> env \<Rightarrow> mg_callbacks option \<Rightarrow> string list option \<Rightarrow> world
   \<Rightarrow> (mg_context \<times> world) step" where
  "prepare b e callbacks options w =
     and_then (initialise b e callbacks options w) (\<lambda>(ctx, w).
     resolve_settings b e ctx w)"

subsection \<open>Lines 187--237: the worker count and the arrays of the pool\<close>

text \<open>Lines 229--235: one event per worker; a failed \<open>event_create\<close> is only logged.\<close>

function create_events :: "env \<Rightarrow> nat \<Rightarrow> nat \<Rightarrow> bool list \<Rightarrow> world \<Rightarrow> bool list \<times> world" where
  "create_events e n i evs w =
     (if i < n then
        (if event_create_ok e i
         then create_events e n (Suc i) (evs[i := True]) (mg_alloc (EventObject i) w)
         else create_events e n (Suc i) (evs[i := False])
                (mg_cry (ErrorCreatingEvent i) w))
      else (evs, w))"
  by pat_completeness auto
termination
  by (relation "measure (\<lambda>(e, n, i, evs, w). n - i)") auto

text \<open>
  Lines 208--235, compiled with \<open>ALTERNATIVE_QUEUE\<close>. The test after the allocation of
  \<open>client_socks\<close> reads \<open>client_wait_events\<close>, as the source does at line 220.
\<close>

definition allocate_queue_arrays ::
  "env \<Rightarrow> mg_context \<Rightarrow> world \<Rightarrow> (mg_context \<times> world) step" where
  "allocate_queue_arrays e ctx w =
     (if alloc_ok e ClientWaitEvents then
        (let n = cfg_worker_threads ctx;
             ctx1 = ctx\<lparr>client_wait_events := Some (replicate n False)\<rparr>;
             w1 = mg_alloc ClientWaitEvents w;
             ctx2 = ctx1\<lparr>client_socks := (if alloc_ok e ClientSocks then Some n else None)\<rparr>;
             w2 = (if alloc_ok e ClientSocks then mg_alloc ClientSocks w1 else w1)
         in (case client_wait_events ctx2 of
               None \<Rightarrow>
                 abort_start ctx2
                   (mg_free WorkerThreadIds
                      ((case client_socks ctx2 of None \<Rightarrow> (\<lambda>w. w)
                        | Some m \<Rightarrow> mg_free ClientSocks)
                         (mg_cry NoMemoryWorkerSockets w2)))
             | Some evs \<Rightarrow>
                 (case create_events e n 0 evs w2 of
                    (evs', w3) \<Rightarrow> Inr (ctx2\<lparr>client_wait_events := Some evs'\<rparr>, w3))))
      else abort_start ctx (mg_free WorkerThreadIds (mg_cry NoMemoryWorkerEvents w)))"

definition allocate_pool ::
  "build \<Rightarrow> env \<Rightarrow> mg_context \<Rightarrow> world \<Rightarrow> (mg_context \<times> world) step" where
  "allocate_pool b e ctx w =
     (case config_at ctx (NUM_THREADS b) of
        None \<Rightarrow> Inl (NullDeref, w)
      | Some s \<Rightarrow>
          (let workerthreadcount = atoi e s in
           if workerthreadcount > MAX_WORKER_THREADS b
           then abort_start ctx (mg_cry TooManyWorkerThreads w)
           else if workerthreadcount > 0 then
             (let ctx1 = ctx\<lparr>cfg_worker_threads := nat workerthreadcount\<rparr> in
              if alloc_ok e WorkerThreadIds then
                (let ctx2 = ctx1\<lparr>workerthreadids :=
                                    Some (replicate (cfg_worker_threads ctx1) False)\<rparr>;
                     w2 = mg_alloc WorkerThreadIds w
                 in if ALTERNATIVE_QUEUE b then allocate_queue_arrays e ctx2 w2
                    else Inr (ctx2, w2))
              else abort_start ctx1 (mg_cry NoMemoryWorkerIds w))
           else Inr (ctx, w)))"

subsection \<open>Lines 239--256: timers, the init callback, the master thread\<close>

definition init_timers ::
  "build \<Rightarrow> env \<Rightarrow> mg_context \<Rightarrow> world \<Rightarrow> (mg_context \<times> world) step" where
  "init_timers b e ctx w =
     (if USE_TIMERS b \<and> \<not> timers_init_ok e
      then abort_start ctx (mg_cry ErrorCreatingTimers w)
      else Inr (ctx, w))"

definition init_user_libraries ::
  "mg_callbacks option \<Rightarrow> mg_context \<Rightarrow> world \<Rightarrow> mg_context \<times> world" where
  "init_user_libraries callbacks ctx w =
     (ctx\<lparr>callbacks_exit_context := exit_callback callbacks, context_type := 1\<rparr>,
      if callbacks_init_context ctx
      then w\<lparr>init_context_calls := Suc (init_context_calls w)\<rparr> else w)"

text \<open>Line 256: the result of \<open>mg_start_thread_with_id\<close> is not looked at.\<close>

definition start_master :: "env \<Rightarrow> mg_context \<Rightarrow> world \<Rightarrow> mg_context \<times> world" where
  "start_master e ctx w =
     (let w1 = w\<lparr>spawn_attempts := spawn_attempts w @ [MasterThread]\<rparr>
      in if thread_start_ok e MasterThread
         then (ctx\<lparr>masterthreadid := True\<rparr>, w1\<lparr>running := running w1 @ [MasterThread]\<rparr>)
         else (ctx, w1))"

text \<open>Lines 187--256: from the worker count to the start of the master thread.\<close>

definition set_up_pool ::
  "build \<Rightarrow> env \<Rightarrow> mg_callbacks option \<Rightarrow> mg_context \<Rightarrow> world
   \<Rightarrow> (mg_context \<times> world) step" where
  "set_up_pool b e callbacks ctx w =
     and_then (allocate_pool b e ctx w) (\<lambda>(ctx, w).
     and_then (init_timers b e ctx w) (\<lambda>(ctx, w).
     (case init_user_libraries callbacks ctx w of
        (ctx1, w1) \<Rightarrow> Inr (start_master e ctx1 w1))))"

text \<open>Lines 57--256: everything before the loop that starts the workers.\<close>

definition before_workers ::
  "build \<Rightarrow> env \<Rightarrow> mg_callbacks option \<Rightarrow> string list option \<Rightarrow> world
   \<Rightarrow> (mg_context \<times> world) step" where
  "before_workers b e callbacks options w =
     and_then (prepare b e callbacks options w) (\<lambda>(ctx, w).
     set_up_pool b e callbacks ctx w)"

subsection \<open>Lines 258--296: the worker threads\<close>

text \<open>
  One round of the loop allocates the thread's arguments and starts the thread. When
  either fails the arguments are released; for the first worker the context is released
  and \<open>NULL\<close> returned, for a later one the failure is logged and the loop left.
\<close>

function start_workers ::
  "env \<Rightarrow> nat \<Rightarrow> mg_context \<Rightarrow> world \<Rightarrow> (mg_context \<times> world) step" where
  "start_workers e i ctx w =
     (if i < cfg_worker_threads ctx then
        (let wta = alloc_ok e (WorkerArgs i);
             w1 = (if wta then mg_alloc (WorkerArgs i) w else w);
             w2 = (if wta then w1\<lparr>spawn_attempts := spawn_attempts w1 @ [WorkerThread i]\<rparr>
                   else w1)
         in if wta \<and> thread_start_ok e (WorkerThread i) then
              start_workers e (Suc i)
                (ctx\<lparr>workerthreadids := map_option (\<lambda>ids. ids[i := True]) (workerthreadids ctx)\<rparr>)
                (w2\<lparr>running := running w2 @ [WorkerThread i]\<rparr>)
            else
              (let w3 = (if wta then mg_free (WorkerArgs i) w2 else w2)
               in if i > 0 then Inr (ctx, mg_cry (CannotStartWorker (i + 1)) w3)
                  else abort_start ctx (mg_cry CannotCreateThreads w3)))
      else Inr (ctx, w))"
  by pat_completeness auto
termination
  by (relation "measure (\<lambda>(e, i, ctx, w). cfg_worker_threads ctx - i)") auto

text \<open>Lines 294--295 for a start that got through; a failed one has returned already.\<close>

definition finish :: "(mg_context \<times> world) step \<Rightarrow> outcome \<times> world" where
  "finish s =
     (case s of Inl r \<Rightarrow> r
      | Inr (ctx, w) \<Rightarrow> (Returned ctx, pthread_setspecific False w))"

definition mg_start ::
  "build \<Rightarrow> env \<Rightarrow> mg_callbacks option \<Rightarrow> string list option \<Rightarrow> world \<Rightarrow> outcome \<times> world" where
  "mg_start b e callbacks options w =
     finish (and_then (before_workers b e callbacks options w)
               (\<lambda>(ctx, w). start_workers e 0 ctx w))"

text \<open>Lines 187--292 as one step, for the proofs.\<close>

definition launch ::
  "build \<Rightarrow> env \<Rightarrow> mg_callbacks option \<Rightarrow> mg_context \<Rightarrow> world
   \<Rightarrow> (mg_context \<times> world) step" where
  "launch b e callbacks ctx w =
     and_then (set_up_pool b e callbacks ctx w) (\<lambda>(ctx, w). start_workers e 0 ctx w)"

subsection \<open>The claims' vocabulary\<close>

text \<open>
  The option list read in pairs, as the caller means it: each name followed by its value.
\<close>

fun option_pairs :: "string list \<Rightarrow> (string \<times> string) list" where
  "option_pairs (name # val # rest) = (name, val) # option_pairs rest"
| "option_pairs rest = []"

text \<open>
  An option list is malformed when one of its names resolves to no option index or when
  its last name has no value after it.
\<close>

fun malformed :: "option_table \<Rightarrow> string list \<Rightarrow> bool" where
  "malformed table [] = False"
| "malformed table [name] = True"
| "malformed table (name # val # rest) =
     (get_option_index table name = None \<or> malformed table rest)"

text \<open>The value of the last pair of the list that names option \<open>i\<close>, if there is one.\<close>

definition last_supplied :: "option_table \<Rightarrow> string list \<Rightarrow> nat \<Rightarrow> string option" where
  "last_supplied table opts i =
     (case filter (\<lambda>(name, val). get_option_index table name = Some i) (option_pairs opts) of
        [] \<Rightarrow> None
      | p # ps \<Rightarrow> Some (snd (last (p # ps))))"

definition supplied_options :: "string list option \<Rightarrow> string list" where
  "supplied_options options = (case options of None \<Rightarrow> [] | Some opts \<Rightarrow> opts)"

text \<open>
  What the configuration should hold for option \<open>i\<close>: the caller's last value, or the
  default of the option table.
\<close>

definition expected_config :: "build \<Rightarrow> string list option \<Rightarrow> nat \<Rightarrow> string option" where
  "expected_config b options i =
     (case last_supplied (config_options b) (supplied_options options) i of
        Some v \<Rightarrow> Some v
      | None \<Rightarrow> snd (config_options b ! i))"

subsection \<open>A build and an environment to run the model on\<close>

text \<open>
  \<open>atoi\<close> of the C library on the strings used below: blanks, a sign, decimal digits.
  Values beyond the range of \<open>int\<close> are not modelled.
\<close>

definition is_digit :: "char \<Rightarrow> bool" where
  "is_digit c = (48 \<le> (of_char c :: nat) \<and> (of_char c :: nat) \<le> 57)"

fun decimal_prefix :: "int \<Rightarrow> string \<Rightarrow> int" where
  "decimal_prefix acc [] = acc"
| "decimal_prefix acc (c # cs) =
     (if is_digit c then decimal_prefix (10 * acc + (of_char c - 48)) cs else acc)"

definition atoi_libc :: "string \<Rightarrow> int" where
  "atoi_libc s =
     (case dropWhile (\<lambda>c. c = CHR '' '') s of
        [] \<Rightarrow> 0
      | c # cs \<Rightarrow> if c = CHR ''-'' then - decimal_prefix 0 cs
                  else if c = CHR ''+'' then decimal_prefix 0 cs
                  else decimal_prefix 0 (c # cs))"

text \<open>A small option table with the classic queue, TLS and the privilege drop compiled in.\<close>

definition example_build :: build where
  "example_build =
     \<lparr>WIN32 = False, ALTERNATIVE_QUEUE = False, NO_SSL = False, NO_FILES = False,
      USE_TIMERS = False,
      config_options = [(''document_root'', None), (''listening_ports'', Some ''8080''),
                        (''num_threads'', Some ''50'')],
      NUM_THREADS = 2, DOCUMENT_ROOT = 0, MAX_WORKER_THREADS = 65536\<rparr>"

definition all_ok :: env where
  "all_ok =
     \<lparr>alloc_ok = (\<lambda>r. True), pthread_key_create_ok = True, sync_init_ok = (\<lambda>s. True),
      system_name = ''Linux'', apply_ok = (\<lambda>c. True), atoi = atoi_libc,
      event_create_ok = (\<lambda>i. True), timers_init_ok = True, thread_start_ok = (\<lambda>t. True)\<rparr>"

definition fresh_world :: world where
  "fresh_world =
     \<lparr>heap = [], allocated = [], double_frees = [], cry = [], called = [], running = [],
      spawn_attempts = [], sTlsInit = 0, tls_keys = 0, tls_slot = False,
      thread_idx_max = 0, sleeps = 0, init_context_calls = 0\<rparr>"

subsection \<open>Notions used in the proofs\<close>

text \<open>The world a step ends in, whether it goes on or returns.\<close>

definition final_world :: "(mg_context \<times> world) step \<Rightarrow> world" where
  "final_world s = (case s of Inl (r, w) \<Rightarrow> w | Inr (ctx, w) \<Rightarrow> w)"

text \<open>What a step may not touch before the pool is set up.\<close>

definition thread_view :: "world \<Rightarrow> thread list \<times> thread list \<times> nat" where
  "thread_view w = (running w, spawn_attempts w, count_list (allocated w) WorkerThreadIds)"

text \<open>Blocks that hold a string.\<close>

fun is_string :: "resource \<Rightarrow> bool" where
  "is_string (StringBlock s) = True"
| "is_string r = False"

text \<open>
  One round of the worker loop seen from outside: the world after worker \<open>i\<close> has been
  started, and after the attempt to start it has failed.
\<close>

definition worker_started :: "nat \<Rightarrow> world \<Rightarrow> world" where
  "worker_started i w =
     (mg_alloc (WorkerArgs i) w)
       \<lparr>spawn_attempts := spawn_attempts w @ [WorkerThread i],
        running := running w @ [WorkerThread i]\<rparr>"

definition worker_failed :: "env \<Rightarrow> nat \<Rightarrow> world \<Rightarrow> world" where
  "worker_failed e i w =
     (if alloc_ok e (WorkerArgs i)
      then mg_free (WorkerArgs i)
             ((mg_alloc (WorkerArgs i) w)
                \<lparr>spawn_attempts := spawn_attempts w @ [WorkerThread i]\<rparr>)
      else w)"

definition record_worker :: "nat \<Rightarrow> mg_context \<Rightarrow> mg_context" where
  "record_worker i ctx =
     ctx\<lparr>workerthreadids := map_option (\<lambda>ids. ids[i := True]) (workerthreadids ctx)\<rparr>"

section \<open>Properties\<close>

subsection \<open>Running the model\<close>

declare start_workers.simps [simp del]

declare create_events.simps [simp del]

declare parse_options.simps(2) [simp del]

lemmas mg_start_unfold =
  mg_start_def finish_def before_workers_def set_up_pool_def prepare_def initialise_def
  and_then_def allocate_context_def
  zeroed_context_def mg_alloc_def init_tls_def pthread_setspecific_def init_sync_def
  store_callbacks_def configure_def store_option_def mg_strdup_def mg_free_def mg_cry_def config_at_def
  resolve_settings_def get_system_name_def collaborators_def allocate_pool_def
  allocate_queue_arrays_def init_timers_def init_user_libraries_def exit_callback_def
  start_master_def abort_start_def free_context_def owned_def config_strings_def
  created_events_def Let_def
  parse_options.simps start_workers.simps create_events.simps

lemmas example_unfold =
  example_build_def all_ok_def fresh_world_def atoi_libc_def is_digit_def

subsection \<open>Library calls and steps\<close>

lemma mg_alloc_fields [simp]:
  "heap (mg_alloc r w) = r # heap w"
  "allocated (mg_alloc r w) = allocated w @ [r]"
  "double_frees (mg_alloc r w) = double_frees w"
  "cry (mg_alloc r w) = cry w"
  "called (mg_alloc r w) = called w"
  "running (mg_alloc r w) = running w"
  "spawn_attempts (mg_alloc r w) = spawn_attempts w"
  "sTlsInit (mg_alloc r w) = sTlsInit w"
  "tls_keys (mg_alloc r w) = tls_keys w"
  "tls_slot (mg_alloc r w) = tls_slot w"
  "thread_idx_max (mg_alloc r w) = thread_idx_max w"
  "sleeps (mg_alloc r w) = sleeps w"
  "init_context_calls (mg_alloc r w) = init_context_calls w"
  by (simp_all add: mg_alloc_def)

lemma mg_strdup_fields [simp]:
  "fst (mg_strdup e s w) = (if alloc_ok e (StringBlock s) then Some s else None)"
  "heap (snd (mg_strdup e s w))
     = (if alloc_ok e (StringBlock s) then StringBlock s # heap w else heap w)"
  "allocated (snd (mg_strdup e s w))
     = (if alloc_ok e (StringBlock s) then allocated w @ [StringBlock s] else allocated w)"
  "double_frees (snd (mg_strdup e s w)) = double_frees w"
  "cry (snd (mg_strdup e s w)) = cry w"
  "called (snd (mg_strdup e s w)) = called w"
  "running (snd (mg_strdup e s w)) = running w"
  "spawn_attempts (snd (mg_strdup e s w)) = spawn_attempts w"
  "sTlsInit (snd (mg_strdup e s w)) = sTlsInit w"
  "tls_keys (snd (mg_strdup e s w)) = tls_keys w"
  "tls_slot (snd (mg_strdup e s w)) = tls_slot w"
  "thread_idx_max (snd (mg_strdup e s w)) = thread_idx_max w"
  "sleeps (snd (mg_strdup e s w)) = sleeps w"
  "init_context_calls (snd (mg_strdup e s w)) = init_context_calls w"
  by (simp_all add: mg_strdup_def)

lemma mg_cry_fields [simp]:
  "heap (mg_cry m w) = heap w"
  "allocated (mg_cry m w) = allocated w"
  "double_frees (mg_cry m w) = double_frees w"
  "cry (mg_cry m w) = cry w @ [m]"
  "called (mg_cry m w) = called w"
  "running (mg_cry m w) = running w"
  "spawn_attempts (mg_cry m w) = spawn_attempts w"
  "sTlsInit (mg_cry m w) = sTlsInit w"
  "tls_keys (mg_cry m w) = tls_keys w"
  "tls_slot (mg_cry m w) = tls_slot w"
  "thread_idx_max (mg_cry m w) = thread_idx_max w"
  "sleeps (mg_cry m w) = sleeps w"
  "init_context_calls (mg_cry m w) = init_context_calls w"
  by (simp_all add: mg_cry_def)

lemma pthread_setspecific_fields [simp]:
  "heap (pthread_setspecific p w) = heap w"
  "allocated (pthread_setspecific p w) = allocated w"
  "double_frees (pthread_setspecific p w) = double_frees w"
  "cry (pthread_setspecific p w) = cry w"
  "called (pthread_setspecific p w) = called w"
  "running (pthread_setspecific p w) = running w"
  "spawn_attempts (pthread_setspecific p w) = spawn_attempts w"
  "sTlsInit (pthread_setspecific p w) = sTlsInit w"
  "tls_keys (pthread_setspecific p w) = tls_keys w"
  "tls_slot (pthread_setspecific p w) = p"
  "thread_idx_max (pthread_setspecific p w) = thread_idx_max w"
  "sleeps (pthread_setspecific p w) = sleeps w"
  "init_context_calls (pthread_setspecific p w) = init_context_calls w"
  by (simp_all add: pthread_setspecific_def)

lemma mg_free_fields [simp]:
  "allocated (mg_free r w) = allocated w"
  "cry (mg_free r w) = cry w"
  "called (mg_free r w) = called w"
  "running (mg_free r w) = running w"
  "spawn_attempts (mg_free r w) = spawn_attempts w"
  "sTlsInit (mg_free r w) = sTlsInit w"
  "tls_keys (mg_free r w) = tls_keys w"
  "tls_slot (mg_free r w) = tls_slot w"
  "thread_idx_max (mg_free r w) = thread_idx_max w"
  "sleeps (mg_free r w) = sleeps w"
  "init_context_calls (mg_free r w) = init_context_calls w"
  by (simp_all add: mg_free_def)

lemma mset_heap_mg_free [simp]: "mset (heap (mg_free r w)) = mset (heap w) - {#r#}"
  by (simp add: mg_free_def)

lemma fold_mg_free_fields [simp]:
  "allocated (fold mg_free rs w) = allocated w"
  "cry (fold mg_free rs w) = cry w"
  "called (fold mg_free rs w) = called w"
  "running (fold mg_free rs w) = running w"
  "spawn_attempts (fold mg_free rs w) = spawn_attempts w"
  "sTlsInit (fold mg_free rs w) = sTlsInit w"
  "tls_keys (fold mg_free rs w) = tls_keys w"
  "tls_slot (fold mg_free rs w) = tls_slot w"
  "thread_idx_max (fold mg_free rs w) = thread_idx_max w"
  "sleeps (fold mg_free rs w) = sleeps w"
  "init_context_calls (fold mg_free rs w) = init_context_calls w"
  by (induction rs arbitrary: w, simp_all)+

lemma mset_heap_fold_mg_free [simp]:
  "mset (heap (fold mg_free rs w)) = mset (heap w) - mset rs"
  by (induction rs arbitrary: w) simp_all

lemma free_context_fields [simp]:
  "allocated (free_context ctx w) = allocated w"
  "cry (free_context ctx w) = cry w"
  "called (free_context ctx w) = called w"
  "running (free_context ctx w) = running w"
  "spawn_attempts (free_context ctx w) = spawn_attempts w"
  "sTlsInit (free_context ctx w) = sTlsInit w"
  "tls_keys (free_context ctx w) = tls_keys w"
  "tls_slot (free_context ctx w) = tls_slot w"
  "thread_idx_max (free_context ctx w) = thread_idx_max w"
  "sleeps (free_context ctx w) = sleeps w"
  "init_context_calls (free_context ctx w) = init_context_calls w"
  by (simp_all add: free_context_def)

lemma mset_heap_free_context [simp]:
  "mset (heap (free_context ctx w)) = mset (heap w) - mset (owned ctx)"
  by (simp add: free_context_def)

lemma abort_start_eq [simp]:
  "(abort_start ctx w = Inl (r, w')) = (r = ReturnedNULL \<and> w' = pthread_setspecific False (free_context ctx w))"
  "abort_start ctx w \<noteq> Inr x"
  by (auto simp: abort_start_def)

lemma final_world_simps [simp]:
  "final_world (Inl p) = snd p"
  "final_world (Inr q) = snd q"
  "final_world (abort_start ctx w) = pthread_setspecific False (free_context ctx w)"
  by (simp_all add: final_world_def abort_start_def case_prod_unfold)

lemma and_then_Inl [simp]: "and_then (Inl r) f = Inl r"
  by (simp add: and_then_def)

lemma and_then_Inr [simp]: "and_then (Inr x) f = f x"
  by (simp add: and_then_def)

lemma and_then_eq_Inr:
  "(and_then m f = Inr y) = (\<exists>x. m = Inr x \<and> f x = Inr y)"
  by (cases m) simp_all

subsection \<open>The option list\<close>

lemma fst_store_option [simp]:
  "fst (store_option e name idx val ctx w)
     = ctx\<lparr>config := (config ctx)[idx := (if alloc_ok e (StringBlock val) then Some val
                                           else None)]\<rparr>"
  by (simp add: store_option_def Let_def)

lemma parse_options_Cons2:
  "get_option_index t name = Some idx \<Longrightarrow>
   parse_options e t (name # val # options) ctx w =
     parse_options e t options (fst (store_option e name idx val ctx w))
       (snd (store_option e name idx val ctx w))"
  by (simp add: parse_options.simps case_prod_unfold)

lemma parse_options_invalid:
  "get_option_index t name = None \<Longrightarrow>
   parse_options e t (name # options) ctx w = abort_start ctx (mg_cry (InvalidOption name) w)"
  by (simp add: parse_options.simps)

lemma parse_options_no_value:
  "get_option_index t name = Some idx \<Longrightarrow>
   parse_options e t [name] ctx w = abort_start ctx (mg_cry (OptionValueNull name) w)"
  by (simp add: parse_options.simps)

lemma parse_options_induct [case_names Nil Invalid NoValue Store]:
  assumes "\<And>ctx w. P [] ctx w"
    and "\<And>name options ctx w. get_option_index t name = None \<Longrightarrow> P (name # options) ctx w"
    and "\<And>name idx ctx w. get_option_index t name = Some idx \<Longrightarrow> P [name] ctx w"
    and "\<And>name idx val options ctx w.
           get_option_index t name = Some idx \<Longrightarrow>
           P options (fst (store_option e name idx val ctx w))
             (snd (store_option e name idx val ctx w)) \<Longrightarrow>
           P (name # val # options) ctx w"
  shows "P opts ctx w"
proof (induction opts arbitrary: ctx w rule: induct_list012)
  case 1
  show ?case by (rule assms(1))
next
  case (2 name)
  show ?case
  proof (cases "get_option_index t name")
    case None
    then show ?thesis by (rule assms(2))
  next
    case (Some idx)
    then show ?thesis by (rule assms(3))
  qed
next
  case (3 name val rest)
  show ?case
  proof (cases "get_option_index t name")
    case None
    then show ?thesis by (rule assms(2))
  next
    case (Some idx)
    then show ?thesis using 3 by (intro assms(4))
  qed
qed

lemmas parse_options_steps =
  parse_options_Cons2 parse_options_invalid parse_options_no_value

lemma parse_options_Inl:
  "parse_options e t opts ctx w = Inl (r, w') \<Longrightarrow> r = ReturnedNULL"
  by (induction opts ctx w rule: parse_options_induct [where t = t and e = e])
     (simp_all add: parse_options_steps)

lemma parse_options_malformed:
  "malformed t opts \<Longrightarrow> \<exists>w'. parse_options e t opts ctx w = Inl (ReturnedNULL, w')"
  by (induction opts ctx w rule: parse_options_induct [where t = t and e = e])
     (simp_all add: parse_options_steps abort_start_def)


subsection \<open>C1: the first worker cannot be started\<close>

text \<open>
  C1 says that when starting the first worker thread fails, \<open>mg_start\<close> returns failure,
  the context is torn down and no thread created by the attempt is still running, the
  master thread in particular. The run below has the default options, every allocation
  succeeds, the master thread starts and the start of worker 0 fails. \<open>mg_start\<close>
  returns \<open>NULL\<close> and nothing stays allocated, but the master thread started at line
  256 is still running: the branch at lines 283--288 releases the context and returns
  without stopping it.
\<close>

theorem first_worker_failure_leaves_master_running:
  "mg_start example_build (all_ok\<lparr>thread_start_ok := (\<lambda>t. t = MasterThread)\<rparr>) None None
     fresh_world
   = (ReturnedNULL,
      fresh_world\<lparr>allocated := [ContextBlock, StringBlock ''8080'', StringBlock ''50'',
                                  StringBlock ''Linux'', WorkerThreadIds, WorkerArgs 0],
                  cry := [CannotCreateThreads],
                  called := [set_gpass_option, set_ssl_option, set_ports_option,
                             set_uid_option, set_acl_option],
                  running := [MasterThread],
                  spawn_attempts := [MasterThread, WorkerThread 0],
                  sTlsInit := 1, tls_keys := 1, thread_idx_max := 1\<rparr>)"
  by (simp add: mg_start_unfold example_unfold)

subsection \<open>C2: an allocation fails in the alternative queue\<close>

text \<open>
  C2 says that a startup attempt that fails at any step, the allocation of the
  socket-slot array of the alternative queue included, releases everything and returns
  failure. The run below is compiled with \<open>ALTERNATIVE_QUEUE\<close>, asks for one worker,
  and the allocation of \<open>client_socks\<close> fails while everything else succeeds. The test
  at line 220 looks at \<open>client_wait_events\<close>, which is not \<open>NULL\<close>, so the failure goes
  unnoticed: \<open>mg_start\<close> returns a context whose \<open>client_socks\<close> is \<open>NULL\<close>, with the
  master and the worker running and every block still allocated.
\<close>

theorem client_socks_failure_not_detected:
  "mg_start (example_build\<lparr>ALTERNATIVE_QUEUE := True\<rparr>)
     (all_ok\<lparr>alloc_ok := (\<lambda>r. r \<noteq> ClientSocks)\<rparr>) None (Some [''num_threads'', ''1''])
     fresh_world
   = (Returned
        \<lparr>callbacks_init_context = False, callbacks_exit_context = False,
         config = [None, Some ''8080'', Some ''1''], systemName = Some ''Linux'',
         cfg_worker_threads = 1, workerthreadids = Some [True],
         client_wait_events = Some [True], client_socks = None, masterthreadid = True,
         context_type = 1\<rparr>,
      fresh_world\<lparr>heap := [WorkerArgs 0, EventObject 0, ClientWaitEvents, WorkerThreadIds,
                            StringBlock ''Linux'', StringBlock ''8080'', StringBlock ''1'',
                            ContextBlock],
                  allocated := [ContextBlock, StringBlock ''1'', StringBlock ''8080'',
                                StringBlock ''Linux'', WorkerThreadIds, ClientWaitEvents,
                                EventObject 0, WorkerArgs 0],
                  called := [set_gpass_option, set_ssl_option, set_ports_option,
                             set_uid_option, set_acl_option],
                  running := [MasterThread, WorkerThread 0],
                  spawn_attempts := [MasterThread, WorkerThread 0],
                  sTlsInit := 1, tls_keys := 1, thread_idx_max := 1\<rparr>)"
  by (simp add: mg_start_unfold example_unfold)

subsection \<open>C5: malformed option lists\<close>

lemma frame_and_then:
  assumes "F (final_world m) = F w"
    and "\<And>ctx w1. m = Inr (ctx, w1) \<Longrightarrow> F (final_world (f (ctx, w1))) = F w1"
  shows "F (final_world (and_then m f)) = F w"
proof (cases m)
  case (Inl r)
  then show ?thesis using assms(1) by (cases r) simp
next
  case (Inr x)
  then show ?thesis using assms by (cases x) simp
qed

lemma thread_view_ops [simp]:
  "r \<noteq> WorkerThreadIds \<Longrightarrow> thread_view (mg_alloc r w) = thread_view w"
  "thread_view (snd (mg_strdup e s w)) = thread_view w"
  "thread_view (mg_free r w) = thread_view w"
  "thread_view (mg_cry m w) = thread_view w"
  "thread_view (pthread_setspecific p w) = thread_view w"
  "thread_view (free_context ctx w) = thread_view w"
  by (simp_all add: thread_view_def)

lemma thread_view_store_option [simp]:
  "thread_view (snd (store_option e name idx val ctx w)) = thread_view w"
  by (simp add: store_option_def Let_def split: option.splits)

lemma thread_view_parse_options [simp]:
  "thread_view (final_world (parse_options e t opts ctx w)) = thread_view w"
  by (induction opts ctx w rule: parse_options_induct [where t = t and e = e])
     (simp_all add: parse_options_steps)

lemma thread_view_set_defaults [simp]:
  "thread_view (snd (set_defaults e t i ctx w)) = thread_view w"
  by (induction t i ctx w rule: set_defaults.induct) (simp_all split: option.splits)

lemma thread_view_allocate_context [simp]:
  "thread_view (final_world (allocate_context b e w)) = thread_view w"
  by (simp add: allocate_context_def)

lemma thread_view_init_tls [simp]:
  "thread_view (final_world (init_tls e ctx w)) = thread_view w"
  by (simp add: init_tls_def Let_def) (simp add: thread_view_def)

lemma thread_view_init_sync [simp]:
  "thread_view (final_world (init_sync b e ctx w)) = thread_view w"
  by (simp add: init_sync_def Let_def)

lemma thread_view_configure [simp]:
  "thread_view (final_world (configure b e options ctx w)) = thread_view w"
  unfolding configure_def
  by (rule frame_and_then) (simp_all add: case_prod_unfold split: option.splits)

lemma thread_view_any_fails [simp]:
  "thread_view (snd (any_fails e cs w)) = thread_view w"
  by (induction cs arbitrary: w) (simp_all add: Let_def thread_view_def)

lemma thread_view_resolve_settings [simp]:
  "thread_view (final_world (resolve_settings b e ctx w)) = thread_view w"
  by (simp add: resolve_settings_def get_system_name_def case_prod_unfold)

lemma thread_view_initialise [simp]:
  "thread_view (final_world (initialise b e callbacks options w)) = thread_view w"
  unfolding initialise_def
  by (intro frame_and_then; simp)+

lemma thread_view_prepare [simp]:
  "thread_view (final_world (prepare b e callbacks options w)) = thread_view w"
  unfolding prepare_def
  by (intro frame_and_then; simp)+


lemma allocate_context_cases:
  "allocate_context b e w = Inl (ReturnedNULL, w)
   \<or> allocate_context b e w = Inr (zeroed_context b, mg_alloc ContextBlock w)"
  by (simp add: allocate_context_def)

lemma init_tls_cases:
  "(\<exists>w'. init_tls e ctx w = Inl (ReturnedNULL, w')) \<or> (\<exists>w'. init_tls e ctx w = Inr (ctx, w'))"
  by (simp add: init_tls_def Let_def)

lemma init_sync_cases:
  "(\<exists>w'. init_sync b e ctx w = Inl (ReturnedNULL, w')) \<or> init_sync b e ctx w = Inr (ctx, w)"
  by (simp add: init_sync_def Let_def)

lemma configure_malformed:
  "malformed (config_options b) opts \<Longrightarrow>
   \<exists>w'. configure b e (Some opts) ctx w = Inl (ReturnedNULL, w')"
  using parse_options_malformed [of "config_options b" opts e ctx w]
  by (auto simp: configure_def)

lemma initialise_cases:
  "(\<exists>w'. initialise b e callbacks options w = Inl (ReturnedNULL, w'))
   \<or> (\<exists>w1. initialise b e callbacks options w =
             configure b e options (store_callbacks callbacks (zeroed_context b)) w1
           \<and> heap w1 = ContextBlock # heap w \<and> called w1 = called w \<and> cry w1 = cry w
           \<and> double_frees w1 = double_frees w)"
proof -
  consider (a) "allocate_context b e w = Inl (ReturnedNULL, w)"
    | (b) "allocate_context b e w = Inr (zeroed_context b, mg_alloc ContextBlock w)"
    using allocate_context_cases by blast
  then show ?thesis
  proof cases
    case a
    then show ?thesis by (simp add: initialise_def)
  next
    case b
    let ?c = "zeroed_context b"
    let ?w1 = "mg_alloc ContextBlock w"
    consider (c) w2 where "init_tls e ?c ?w1 = Inl (ReturnedNULL, w2)"
      | (d) w2 where "init_tls e ?c ?w1 = Inr (?c, w2)"
      using init_tls_cases by blast
    then show ?thesis
    proof cases
      case c
      with b show ?thesis by (simp add: initialise_def)
    next
      case d
      then have h: "heap w2 = ContextBlock # heap w \<and> called w2 = called w \<and> cry w2 = cry w
          \<and> double_frees w2 = double_frees w"
        by (auto simp: init_tls_def Let_def split: if_splits)
      consider (f) w3 where "init_sync b e ?c w2 = Inl (ReturnedNULL, w3)"
        | (g) "init_sync b e ?c w2 = Inr (?c, w2)"
        using init_sync_cases by blast
      then show ?thesis
      proof cases
        case f
        with b d show ?thesis by (simp add: initialise_def)
      next
        case g
        with b d have "initialise b e callbacks options w =
            configure b e options (store_callbacks callbacks (zeroed_context b)) w2"
          by (simp add: initialise_def)
        with h show ?thesis by blast
      qed
    qed
  qed
qed

lemma prepare_malformed:
  assumes "malformed (config_options b) opts"
  shows "\<exists>w'. prepare b e callbacks (Some opts) w = Inl (ReturnedNULL, w')"
proof -
  consider (a) w' where "initialise b e callbacks (Some opts) w = Inl (ReturnedNULL, w')"
    | (b) w1 where "initialise b e callbacks (Some opts) w =
             configure b e (Some opts) (store_callbacks callbacks (zeroed_context b)) w1"
    using initialise_cases by blast
  then show ?thesis
  proof cases
    case a
    then show ?thesis by (simp add: prepare_def)
  next
    case b
    obtain w4 where
      "configure b e (Some opts) (store_callbacks callbacks (zeroed_context b)) w1
         = Inl (ReturnedNULL, w4)"
      using configure_malformed [OF assms] by blast
    with b show ?thesis by (simp add: prepare_def)
  qed
qed

text \<open>
  C5: an option list with an unknown name, or with a last name that has no value, makes
  \<open>mg_start\<close> return \<open>NULL\<close>; the worker-handle list is not allocated and no thread is
  started, the master thread included.
\<close>

theorem malformed_options_rejected:
  assumes "malformed (config_options b) opts"
  shows "fst (mg_start b e callbacks (Some opts) w) = ReturnedNULL
    \<and> count_list (allocated (snd (mg_start b e callbacks (Some opts) w))) WorkerThreadIds
        = count_list (allocated w) WorkerThreadIds
    \<and> spawn_attempts (snd (mg_start b e callbacks (Some opts) w)) = spawn_attempts w
    \<and> running (snd (mg_start b e callbacks (Some opts) w)) = running w"
proof -
  obtain w' where p: "prepare b e callbacks (Some opts) w = Inl (ReturnedNULL, w')"
    using prepare_malformed [OF assms] by blast
  have "thread_view (final_world (prepare b e callbacks (Some opts) w)) = thread_view w"
    by simp
  with p have v: "thread_view w' = thread_view w" by simp
  have "mg_start b e callbacks (Some opts) w = (ReturnedNULL, w')"
    using p by (simp add: mg_start_def before_workers_def finish_def)
  with v show ?thesis by (simp add: thread_view_def)
qed

theorem malformed_options_rejected_witness:
  "malformed (config_options example_build) [''num_threads'', ''2'', ''bogus'']
   \<and> fst (mg_start example_build all_ok None (Some [''num_threads'', ''2'', ''bogus''])
          fresh_world) = ReturnedNULL
   \<and> allocated (snd (mg_start example_build all_ok None
          (Some [''num_threads'', ''2'', ''bogus'']) fresh_world))
       = [ContextBlock, StringBlock ''2'']
   \<and> running (snd (mg_start example_build all_ok None
          (Some [''num_threads'', ''2'', ''bogus'']) fresh_world)) = []"
proof -
  have m: "malformed (config_options example_build) [''num_threads'', ''2'', ''bogus'']"
    by (simp add: example_build_def)
  have "allocated (snd (mg_start example_build all_ok None
          (Some [''num_threads'', ''2'', ''bogus'']) fresh_world))
       = [ContextBlock, StringBlock ''2'']"
    by (simp add: mg_start_unfold example_unfold)
  with m malformed_options_rejected [OF m, of all_ok None fresh_world] show ?thesis
    by (simp add: fresh_world_def)
qed

subsection \<open>C3: the order of the collaborators\<close>

lemma any_fails_eq:
  "any_fails e cs w =
     (\<not> list_all (apply_ok e) cs,
      w\<lparr>called := called w @ takeWhile (apply_ok e) cs @ take 1 (dropWhile (apply_ok e) cs)\<rparr>)"
  by (induction cs arbitrary: w) (simp_all add: Let_def)

lemma called_store_option [simp]:
  "called (snd (store_option e name idx val ctx w)) = called w"
  by (simp add: store_option_def Let_def split: option.splits)

lemma called_parse_options [simp]:
  "called (final_world (parse_options e t opts ctx w)) = called w"
  by (induction opts ctx w rule: parse_options_induct [where t = t and e = e])
     (simp_all add: parse_options_steps)

lemma called_set_defaults [simp]:
  "called (snd (set_defaults e t i ctx w)) = called w"
  by (induction t i ctx w rule: set_defaults.induct) (simp_all split: option.splits)

lemma called_configure [simp]:
  "called (final_world (configure b e options ctx w)) = called w"
  unfolding configure_def
  by (rule frame_and_then) (simp_all add: case_prod_unfold split: option.splits)

lemma called_create_events [simp]:
  "called (snd (create_events e n i evs w)) = called w"
  by (induction e n i evs w rule: create_events.induct)
     (subst create_events.simps, simp)

lemma called_allocate_queue_arrays [simp]:
  "called (final_world (allocate_queue_arrays e ctx w)) = called w"
  by (simp add: allocate_queue_arrays_def Let_def case_prod_unfold split: option.splits)

lemma called_allocate_pool [simp]:
  "called (final_world (allocate_pool b e ctx w)) = called w"
  by (simp add: allocate_pool_def Let_def split: option.splits)

lemma called_init_timers [simp]:
  "called (final_world (init_timers b e ctx w)) = called w"
  by (simp add: init_timers_def)

lemma called_init_user_libraries [simp]:
  "called (snd (init_user_libraries callbacks ctx w)) = called w"
  by (simp add: init_user_libraries_def)

lemma called_start_master [simp]:
  "called (snd (start_master e ctx w)) = called w"
  by (simp add: start_master_def Let_def)

lemma called_start_workers [simp]:
  "called (final_world (start_workers e i ctx w)) = called w"
  by (induction e i ctx w rule: start_workers.induct)
     (subst start_workers.simps, simp add: Let_def)

lemma called_set_up_pool [simp]:
  "called (final_world (set_up_pool b e callbacks ctx w)) = called w"
  unfolding set_up_pool_def
  by (intro frame_and_then; simp add: case_prod_unfold)+

lemma called_launch [simp]:
  "called (final_world (launch b e callbacks ctx w)) = called w"
  unfolding launch_def
  by (intro frame_and_then; simp add: case_prod_unfold)+

lemma called_initialise [simp]:
  "called (final_world (initialise b e callbacks options w)) = called w"
  unfolding initialise_def
  by (intro frame_and_then; simp add: case_prod_unfold allocate_context_def
        init_tls_def init_sync_def Let_def)+

lemma and_then_assoc:
  "and_then (and_then m f) g = and_then m (\<lambda>x. and_then (f x) g)"
  by (cases m) simp_all

lemma mg_start_launch:
  "mg_start b e callbacks options w =
     finish (and_then (prepare b e callbacks options w)
               (\<lambda>(ctx, w). launch b e callbacks ctx w))"
  by (simp add: mg_start_def before_workers_def launch_def and_then_assoc case_prod_unfold)

lemma finish_simps [simp]:
  "finish (Inl r) = r"
  "finish (Inr (ctx, w)) = (Returned ctx, pthread_setspecific False w)"
  by (simp_all add: finish_def)

lemma snd_finish: "snd (finish s) =
  (case s of Inl r \<Rightarrow> final_world s | Inr x \<Rightarrow> pthread_setspecific False (final_world s))"
  by (simp add: finish_def case_prod_unfold split: sum.splits)

lemma called_finish [simp]: "called (snd (finish s)) = called (final_world s)"
  by (simp add: snd_finish split: sum.splits)

subsection \<open>Context blocks on the heap\<close>

lemma count_owned_ContextBlock [simp]: "count (mset (owned ctx)) ContextBlock = 1"
  by (auto simp: owned_def count_eq_zero_iff split: option.splits)

lemma heap_store_option_other:
  "\<not> is_string c \<Longrightarrow>
   count (mset (heap (snd (store_option e name idx val ctx w)))) c = count (mset (heap w)) c"
  by (auto simp: store_option_def Let_def split: option.splits)

lemma heap_parse_options_other:
  "parse_options e t opts ctx w = Inr (ctx', w') \<Longrightarrow> \<not> is_string c \<Longrightarrow>
   count (mset (heap w')) c = count (mset (heap w)) c"
  by (induction opts ctx w rule: parse_options_induct [where t = t and e = e])
     (simp_all add: parse_options_steps heap_store_option_other)

lemma heap_set_defaults_other:
  "\<not> is_string c \<Longrightarrow>
   count (mset (heap (snd (set_defaults e t i ctx w)))) c = count (mset (heap w)) c"
  by (induction t i ctx w rule: set_defaults.induct) (auto split: option.splits)

lemma heap_configure_other:
  assumes "configure b e options ctx w = Inr (ctx', w')" and "\<not> is_string c"
  shows "count (mset (heap w')) c = count (mset (heap w)) c"
proof -
  obtain ctx1 w1 where
    p: "(case options of None \<Rightarrow> Inr (ctx, w)
         | Some opts \<Rightarrow> parse_options e (config_options b) opts ctx w) = Inr (ctx1, w1)"
    and d: "w' = snd (set_defaults e (config_options b) 0 ctx1 w1)"
    using assms(1)
    by (auto simp: configure_def and_then_eq_Inr case_prod_unfold split: if_splits)
  from p have "count (mset (heap w1)) c = count (mset (heap w)) c"
    using heap_parse_options_other [OF _ assms(2)] by (cases options) auto
  with d show ?thesis by (simp add: heap_set_defaults_other [OF assms(2)])
qed

lemma initialise_Inr:
  assumes "initialise b e callbacks options w = Inr (ctx, w')"
  shows "called w' = called w
    \<and> count (mset (heap w')) ContextBlock = Suc (count (mset (heap w)) ContextBlock)"
proof -
  have "called (final_world (initialise b e callbacks options w)) = called w" by simp
  with assms have c: "called w' = called w" by simp
  obtain w1 where
    "configure b e options (store_callbacks callbacks (zeroed_context b)) w1 = Inr (ctx, w')"
    and "heap w1 = ContextBlock # heap w"
    using initialise_cases [of b e callbacks options w] assms by auto
  then have "count (mset (heap w')) ContextBlock = Suc (count (mset (heap w)) ContextBlock)"
    using heap_configure_other [where c = ContextBlock] by fastforce
  with c show ?thesis by simp
qed

lemma resolve_settings_eq:
  "resolve_settings b e ctx w =
     (let ctx1 = ctx\<lparr>systemName := fst (mg_strdup e (system_name e) w)\<rparr>;
          w2 = (snd (mg_strdup e (system_name e) w))
                 \<lparr>called := called w @ takeWhile (apply_ok e) (collaborators b)
                              @ take 1 (dropWhile (apply_ok e) (collaborators b))\<rparr>
      in if list_all (apply_ok e) (collaborators b) then Inr (ctx1, w2)
         else abort_start ctx1 w2)"
  by (simp add: resolve_settings_def get_system_name_def any_fails_eq Let_def)

lemma collaborators_trace:
  assumes "mg_start b e callbacks options w = (r, w')"
  shows "case initialise b e callbacks options w of
           Inl x \<Rightarrow> called w' = called w
         | Inr y \<Rightarrow>
             called w' = called w @ takeWhile (apply_ok e) (collaborators b)
                                  @ take 1 (dropWhile (apply_ok e) (collaborators b))
             \<and> (list_all (apply_ok e) (collaborators b)
                \<or> r = ReturnedNULL
                  \<and> count_list (heap w') ContextBlock = count_list (heap w) ContextBlock)"
proof (cases "initialise b e callbacks options w")
  case (Inl x)
  then have "mg_start b e callbacks options w = x"
    by (simp add: mg_start_launch prepare_def)
  moreover have "called (final_world (initialise b e callbacks options w)) = called w"
    by simp
  ultimately show ?thesis using Inl assms by auto
next
  case (Inr y)
  obtain ctx0 w0 where y: "y = (ctx0, w0)" by (cases y)
  from Inr y have i: "called w0 = called w"
    "count (mset (heap w0)) ContextBlock = Suc (count (mset (heap w)) ContextBlock)"
    using initialise_Inr by blast+
  let ?ctx1 = "ctx0\<lparr>systemName := fst (mg_strdup e (system_name e) w0)\<rparr>"
  let ?w2 = "(snd (mg_strdup e (system_name e) w0))
               \<lparr>called := called w0 @ takeWhile (apply_ok e) (collaborators b)
                            @ take 1 (dropWhile (apply_ok e) (collaborators b))\<rparr>"
  show ?thesis
  proof (cases "list_all (apply_ok e) (collaborators b)")
    case True
    then have "mg_start b e callbacks options w = finish (launch b e callbacks ?ctx1 ?w2)"
      using Inr y by (simp add: mg_start_launch prepare_def resolve_settings_eq)
    with assms have "w' = snd (finish (launch b e callbacks ?ctx1 ?w2))" by simp
    then have "called w' = called ?w2" by simp
    with True Inr y i show ?thesis by simp
  next
    case False
    then have "mg_start b e callbacks options w =
        (ReturnedNULL, pthread_setspecific False (free_context ?ctx1 ?w2))"
      using Inr y by (simp add: mg_start_launch prepare_def resolve_settings_eq abort_start_def)
    with assms have r: "r = ReturnedNULL"
      and w': "w' = pthread_setspecific False (free_context ?ctx1 ?w2)" by simp_all
    from w' have "called w' = called ?w2" by simp
    moreover from w' i(2) have
      "count (mset (heap w')) ContextBlock = count (mset (heap w)) ContextBlock"
      by simp
    ultimately show ?thesis using r Inr y i(1) by (simp add: count_mset)
  qed
qed

lemma collaborators_filter:
  "collaborators b
     = filter (\<lambda>c. if c = set_ssl_option then \<not> NO_SSL b
                    else if c = set_uid_option then \<not> WIN32 b else True)
         [set_gpass_option, set_ssl_option, set_ports_option, set_uid_option,
          set_acl_option]"
  by (simp add: collaborators_def)

text \<open>
  C3: in every build the collaborators called are, in this order, credential file, TLS
  (unless compiled with \<open>NO_SSL\<close>), listening ports, privilege drop (unless compiled for
  \<open>_WIN32\<close>) and ACL, up to and including the first that returns false; when one returns
  false \<open>mg_start\<close> returns \<open>NULL\<close> and the context block is released. A start that
  fails before line 167 calls none.
\<close>

theorem collaborators_called_in_order:
  assumes "mg_start b e callbacks options w = (r, w')"
  shows "let cs = filter (\<lambda>c. if c = set_ssl_option then \<not> NO_SSL b
                             else if c = set_uid_option then \<not> WIN32 b else True)
                    [set_gpass_option, set_ssl_option, set_ports_option, set_uid_option,
                     set_acl_option]
         in (case initialise b e callbacks options w of
               Inl x \<Rightarrow> called w' = called w
             | Inr y \<Rightarrow>
                 called w' = called w @ takeWhile (apply_ok e) cs
                                      @ take 1 (dropWhile (apply_ok e) cs)
                 \<and> (list_all (apply_ok e) cs
                    \<or> r = ReturnedNULL
                      \<and> count_list (heap w') ContextBlock
                          = count_list (heap w) ContextBlock))"
  using collaborators_trace [OF assms]
  unfolding Let_def collaborators_filter .

theorem collaborators_called_in_order_witness:
  "called (snd (mg_start example_build (all_ok\<lparr>apply_ok := (\<lambda>c. c \<noteq> set_ports_option)\<rparr>)
                  None None fresh_world))
     = [set_gpass_option, set_ssl_option, set_ports_option]
   \<and> fst (mg_start example_build (all_ok\<lparr>apply_ok := (\<lambda>c. c \<noteq> set_ports_option)\<rparr>)
            None None fresh_world) = ReturnedNULL
   \<and> count_list (heap (snd (mg_start example_build
            (all_ok\<lparr>apply_ok := (\<lambda>c. c \<noteq> set_ports_option)\<rparr>) None None fresh_world)))
         ContextBlock = 0
   \<and> called (snd (mg_start (example_build\<lparr>NO_SSL := True\<rparr>)
                  (all_ok\<lparr>apply_ok := (\<lambda>c. c \<noteq> set_acl_option)\<rparr>) None None fresh_world))
     = [set_gpass_option, set_ports_option, set_uid_option, set_acl_option]"
proof -
  let ?e = "all_ok\<lparr>apply_ok := (\<lambda>c. c \<noteq> set_ports_option)\<rparr>"
  let ?e2 = "all_ok\<lparr>apply_ok := (\<lambda>c. c \<noteq> set_acl_option)\<rparr>"
  let ?b2 = "example_build\<lparr>NO_SSL := True\<rparr>"
  let ?c = "\<lparr>callbacks_init_context = False, callbacks_exit_context = False,
            config = [None, Some ''8080'', Some ''50''], systemName = None,
            cfg_worker_threads = 0, workerthreadids = None, client_wait_events = None,
            client_socks = None, masterthreadid = False, context_type = 0\<rparr>"
  let ?w = "fresh_world\<lparr>heap := [StringBlock ''50'', StringBlock ''8080'', ContextBlock],
                       allocated := [ContextBlock, StringBlock ''8080'', StringBlock ''50''],
                       sTlsInit := 1, tls_keys := 1, tls_slot := True,
                       thread_idx_max := 1\<rparr>"
  have i: "initialise example_build ?e None None fresh_world = Inr (?c, ?w)"
    by (simp add: mg_start_unfold example_unfold)
  have i2: "initialise ?b2 ?e2 None None fresh_world = Inr (?c, ?w)"
    by (simp add: mg_start_unfold example_unfold)
  have a: "apply_ok ?e = (\<lambda>c. c \<noteq> set_ports_option)"
    "apply_ok ?e2 = (\<lambda>c. c \<noteq> set_acl_option)" "called fresh_world = []"
    "heap fresh_world = []" "NO_SSL example_build = False" "WIN32 example_build = False"
    "NO_SSL ?b2 = True" "WIN32 ?b2 = False"
    by (simp_all add: all_ok_def fresh_world_def example_build_def)
  have 1: "called (snd (mg_start example_build ?e None None fresh_world))
       = [set_gpass_option, set_ssl_option, set_ports_option]
     \<and> fst (mg_start example_build ?e None None fresh_world) = ReturnedNULL
     \<and> count_list (heap (snd (mg_start example_build ?e None None fresh_world)))
           ContextBlock = 0"
    using collaborators_called_in_order
      [OF surjective_pairing, of example_build ?e None None fresh_world]
    unfolding i a Let_def by simp
  have 2: "called (snd (mg_start ?b2 ?e2 None None fresh_world))
       = [set_gpass_option, set_ports_option, set_uid_option, set_acl_option]"
    using collaborators_called_in_order
      [OF surjective_pairing, of ?b2 ?e2 None None fresh_world]
    unfolding i2 a Let_def by simp
  from 1 2 show ?thesis by simp
qed

subsection \<open>C10: no workers\<close>

lemma parse_options_ctx:
  "parse_options e t opts ctx w = Inr (ctx', w') \<Longrightarrow>
   ctx' = ctx\<lparr>config := config ctx'\<rparr> \<and> length (config ctx') = length (config ctx)"
  by (induction opts ctx w rule: parse_options_induct [where t = t and e = e])
     (auto simp: parse_options_steps)

lemma set_defaults_ctx:
  "fst (set_defaults e t i ctx w) = ctx\<lparr>config := config (fst (set_defaults e t i ctx w))\<rparr>
   \<and> length (config (fst (set_defaults e t i ctx w))) = length (config ctx)"
  by (induction t i ctx w rule: set_defaults.induct) (auto split: option.splits)

lemma configure_ctx:
  assumes "configure b e options ctx w = Inr (ctx', w')"
  shows "ctx' = ctx\<lparr>config := config ctx'\<rparr> \<and> length (config ctx') = length (config ctx)"
proof -
  obtain ctx1 w1 where
    p: "(case options of None \<Rightarrow> Inr (ctx, w)
         | Some opts \<Rightarrow> parse_options e (config_options b) opts ctx w) = Inr (ctx1, w1)"
    and d: "ctx' = fst (set_defaults e (config_options b) 0 ctx1 w1)"
    using assms
    by (auto simp: configure_def and_then_eq_Inr case_prod_unfold split: if_splits)
  from p have 1: "ctx1 = ctx\<lparr>config := config ctx1\<rparr> \<and> length (config ctx1) = length (config ctx)"
    using parse_options_ctx by (cases options) auto
  from d have 2: "ctx' = ctx1\<lparr>config := config ctx'\<rparr> \<and> length (config ctx') = length (config ctx1)"
    using set_defaults_ctx by metis
  from 1 2 show ?thesis by (metis mg_context.surjective mg_context.update_convs(3))
qed

lemma initialise_ctx:
  assumes "initialise b e callbacks options w = Inr (ctx, w')"
  shows "ctx = (store_callbacks callbacks (zeroed_context b))\<lparr>config := config ctx\<rparr>
    \<and> length (config ctx) = length (config_options b)"
proof -
  obtain w1 where
    "configure b e options (store_callbacks callbacks (zeroed_context b)) w1 = Inr (ctx, w')"
    using initialise_cases [of b e callbacks options w] assms by auto
  from configure_ctx [OF this] show ?thesis
    by (simp add: store_callbacks_def zeroed_context_def split: option.splits)
qed

lemma prepare_Inr:
  assumes "prepare b e callbacks options w = Inr (ctx, w')"
  shows "cfg_worker_threads ctx = 0" "workerthreadids ctx = None"
    "client_wait_events ctx = None" "client_socks ctx = None" "masterthreadid ctx = False"
    "length (config ctx) = length (config_options b)"
    "callbacks_init_context ctx = (case callbacks of None \<Rightarrow> False | Some cb \<Rightarrow> init_context cb)"
proof -
  obtain ctx0 w0 where i: "initialise b e callbacks options w = Inr (ctx0, w0)"
    and r: "resolve_settings b e ctx0 w0 = Inr (ctx, w')"
    using assms by (auto simp: prepare_def and_then_eq_Inr)
  from r have c: "ctx = ctx0\<lparr>systemName := fst (mg_strdup e (system_name e) w0)\<rparr>"
    by (auto simp: resolve_settings_eq Let_def split: if_splits)
  from initialise_ctx [OF i] obtain cfg where
    "ctx0 = (store_callbacks callbacks (zeroed_context b))\<lparr>config := cfg\<rparr>"
    "length cfg = length (config_options b)"
    by (metis mg_context.select_convs(3) mg_context.surjective mg_context.update_convs(3))
  with c show "cfg_worker_threads ctx = 0" "workerthreadids ctx = None"
    "client_wait_events ctx = None" "client_socks ctx = None" "masterthreadid ctx = False"
    "length (config ctx) = length (config_options b)"
    "callbacks_init_context ctx = (case callbacks of None \<Rightarrow> False | Some cb \<Rightarrow> init_context cb)"
    by (simp_all add: store_callbacks_def zeroed_context_def split: option.splits)
qed

lemma start_workers_done:
  "cfg_worker_threads ctx \<le> i \<Longrightarrow> start_workers e i ctx w = Inr (ctx, w)"
  by (simp add: start_workers.simps)

text \<open>
  C10: a worker count of zero or less is accepted. When everything before line 187
  succeeds, the timers (if compiled in) initialise and the master thread starts,
  \<open>mg_start\<close> returns a context with \<open>cfg_worker_threads = 0\<close> and no worker-handle
  list; nothing is allocated after line 187 and the master thread is the only thread
  started.
\<close>

theorem zero_workers_accepted:
  assumes "prepare b e callbacks options w = Inr (ctx1, w1)"
    and "config_at ctx1 (NUM_THREADS b) = Some s"
    and "atoi e s \<le> 0"
    and "0 \<le> MAX_WORKER_THREADS b"
    and "USE_TIMERS b \<longrightarrow> timers_init_ok e"
    and "thread_start_ok e MasterThread"
  shows "\<exists>ctx w'. mg_start b e callbacks options w = (Returned ctx, w')
    \<and> cfg_worker_threads ctx = 0 \<and> workerthreadids ctx = None
    \<and> client_wait_events ctx = None \<and> client_socks ctx = None
    \<and> allocated w' = allocated w1 \<and> heap w' = heap w1
    \<and> running w' = running w @ [MasterThread]
    \<and> spawn_attempts w' = spawn_attempts w @ [MasterThread]"
proof -
  have "thread_view (final_world (prepare b e callbacks options w)) = thread_view w"
    by simp
  with assms(1) have v: "running w1 = running w" "spawn_attempts w1 = spawn_attempts w"
    by (simp_all add: thread_view_def)
  note z = prepare_Inr [OF assms(1)]
  from assms(5) have t: "\<not> (USE_TIMERS b \<and> \<not> timers_init_ok e)" by blast
  have "set_up_pool b e callbacks ctx1 w1 =
      Inr (start_master e (fst (init_user_libraries callbacks ctx1 w1))
             (snd (init_user_libraries callbacks ctx1 w1)))"
    using assms(2-4) t
    by (auto simp: set_up_pool_def allocate_pool_def init_timers_def case_prod_unfold)
  then show ?thesis
    using assms(1,6) z v
    by (simp add: mg_start_def before_workers_def start_master_def
        init_user_libraries_def Let_def start_workers_done)
qed

theorem zero_workers_accepted_witness:
  "\<exists>ctx w'. mg_start example_build all_ok None (Some [''num_threads'', ''0'']) fresh_world
              = (Returned ctx, w')
    \<and> cfg_worker_threads ctx = 0 \<and> workerthreadids ctx = None
    \<and> running w' = [MasterThread] \<and> spawn_attempts w' = [MasterThread]"
proof -
  let ?c = "\<lparr>callbacks_init_context = False, callbacks_exit_context = False,
             config = [None, Some ''8080'', Some ''0''], systemName = Some ''Linux'',
             cfg_worker_threads = 0, workerthreadids = None, client_wait_events = None,
             client_socks = None, masterthreadid = False, context_type = 0\<rparr>"
  let ?w = "fresh_world\<lparr>heap := [StringBlock ''Linux'', StringBlock ''8080'',
                                   StringBlock ''0'', ContextBlock],
                        allocated := [ContextBlock, StringBlock ''0'', StringBlock ''8080'',
                                      StringBlock ''Linux''],
                        called := [set_gpass_option, set_ssl_option, set_ports_option,
                                   set_uid_option, set_acl_option],
                        sTlsInit := 1, tls_keys := 1, tls_slot := True,
                        thread_idx_max := 1\<rparr>"
  have p: "prepare example_build all_ok None (Some [''num_threads'', ''0'']) fresh_world
      = Inr (?c, ?w)"
    by (simp add: mg_start_unfold example_unfold)
  have c: "config_at ?c (NUM_THREADS example_build) = Some ''0''"
    by (simp add: config_at_def example_build_def)
  have a: "atoi all_ok ''0'' \<le> 0" "0 \<le> MAX_WORKER_THREADS example_build"
    "USE_TIMERS example_build \<longrightarrow> timers_init_ok all_ok"
    "thread_start_ok all_ok MasterThread"
    by (simp_all add: example_unfold)
  show ?thesis
    using zero_workers_accepted [OF p c a] by (auto simp: fresh_world_def)
qed

subsection \<open>C7: the limit on the worker count\<close>

lemma create_events_frame [simp]:
  "running (snd (create_events e n i evs w)) = running w"
  "spawn_attempts (snd (create_events e n i evs w)) = spawn_attempts w"
  by (induction e n i evs w rule: create_events.induct,
      subst create_events.simps, simp)+

lemma allocate_queue_arrays_Inr:
  assumes "allocate_queue_arrays e ctx w = Inr (ctx', w')"
  shows "cfg_worker_threads ctx' = cfg_worker_threads ctx
    \<and> workerthreadids ctx' = workerthreadids ctx \<and> config ctx' = config ctx
    \<and> callbacks_init_context ctx' = callbacks_init_context ctx
    \<and> running w' = running w \<and> spawn_attempts w' = spawn_attempts w"
proof (cases "alloc_ok e ClientWaitEvents")
  case False
  with assms show ?thesis by (simp add: allocate_queue_arrays_def)
next
  case True
  with assms show ?thesis
    by (cases "alloc_ok e ClientSocks")
       (auto simp: allocate_queue_arrays_def Let_def case_prod_unfold)
qed

lemma allocate_pool_Inr:
  assumes "allocate_pool b e ctx w = Inr (ctx', w')"
    and "cfg_worker_threads ctx = 0" and "workerthreadids ctx = None"
  shows "\<exists>s. config_at ctx (NUM_THREADS b) = Some s
    \<and> atoi e s \<le> MAX_WORKER_THREADS b
    \<and> cfg_worker_threads ctx' = nat (atoi e s)
    \<and> workerthreadids ctx' =
        (if 0 < atoi e s then Some (replicate (nat (atoi e s)) False) else None)
    \<and> config ctx' = config ctx
    \<and> callbacks_init_context ctx' = callbacks_init_context ctx
    \<and> running w' = running w \<and> spawn_attempts w' = spawn_attempts w"
proof -
  obtain s where s: "config_at ctx (NUM_THREADS b) = Some s"
    using assms(1) by (cases "config_at ctx (NUM_THREADS b)") (simp_all add: allocate_pool_def)
  have le: "atoi e s \<le> MAX_WORKER_THREADS b"
    using assms(1) s by (simp add: allocate_pool_def Let_def split: if_splits)
  show ?thesis
  proof (cases "0 < atoi e s")
    case False
    with assms s le show ?thesis by (simp add: allocate_pool_def Let_def)
  next
    case True
    let ?ctx2 = "ctx\<lparr>cfg_worker_threads := nat (atoi e s),
                     workerthreadids := Some (replicate (nat (atoi e s)) False)\<rparr>"
    have ok: "alloc_ok e WorkerThreadIds"
      using assms(1) s le True by (simp add: allocate_pool_def Let_def split: if_splits)
    show ?thesis
    proof (cases "ALTERNATIVE_QUEUE b")
      case False
      with assms s le True ok show ?thesis by (auto simp: allocate_pool_def Let_def)
    next
      case alt: True
      have "allocate_queue_arrays e ?ctx2 (mg_alloc WorkerThreadIds w) = Inr (ctx', w')"
        using assms(1) s le True ok alt by (simp add: allocate_pool_def Let_def)
      from allocate_queue_arrays_Inr [OF this] s le True show ?thesis by simp
    qed
  qed
qed

lemma set_up_pool_Inr:
  assumes "set_up_pool b e callbacks ctx w = Inr (ctx', w')"
    and "cfg_worker_threads ctx = 0" and "workerthreadids ctx = None"
  shows "\<exists>s. config_at ctx (NUM_THREADS b) = Some s
    \<and> atoi e s \<le> MAX_WORKER_THREADS b
    \<and> cfg_worker_threads ctx' = nat (atoi e s)
    \<and> workerthreadids ctx' =
        (if 0 < atoi e s then Some (replicate (nat (atoi e s)) False) else None)
    \<and> config ctx' = config ctx
    \<and> running w' = running w @ (if thread_start_ok e MasterThread then [MasterThread] else [])
    \<and> spawn_attempts w' = spawn_attempts w @ [MasterThread]"
proof -
  obtain ctx2 w2 where a: "allocate_pool b e ctx w = Inr (ctx2, w2)"
    and r: "(ctx', w') = start_master e (fst (init_user_libraries callbacks ctx2 w2))
                (snd (init_user_libraries callbacks ctx2 w2))"
    using assms(1)
    by (auto simp: set_up_pool_def and_then_eq_Inr init_timers_def case_prod_unfold
        split: if_splits)
  from r have "ctx' = fst (start_master e (fst (init_user_libraries callbacks ctx2 w2))
                (snd (init_user_libraries callbacks ctx2 w2)))"
    "w' = snd (start_master e (fst (init_user_libraries callbacks ctx2 w2))
                (snd (init_user_libraries callbacks ctx2 w2)))"
    by (metis fst_conv, metis snd_conv)
  then have "cfg_worker_threads ctx' = cfg_worker_threads ctx2"
    "workerthreadids ctx' = workerthreadids ctx2" "config ctx' = config ctx2"
    "running w' = running w2 @ (if thread_start_ok e MasterThread then [MasterThread] else [])"
    "spawn_attempts w' = spawn_attempts w2 @ [MasterThread]"
    by (simp_all add: start_master_def init_user_libraries_def Let_def)
  with allocate_pool_Inr [OF a assms(2,3)] show ?thesis by auto
qed

lemma start_workers_started:
  "i < cfg_worker_threads ctx \<Longrightarrow> alloc_ok e (WorkerArgs i) \<Longrightarrow>
   thread_start_ok e (WorkerThread i) \<Longrightarrow>
   start_workers e i ctx w
     = start_workers e (Suc i) (record_worker i ctx) (worker_started i w)"
  by (subst start_workers.simps)
     (simp add: Let_def worker_started_def record_worker_def)

lemma start_workers_failed:
  "i < cfg_worker_threads ctx \<Longrightarrow>
   \<not> (alloc_ok e (WorkerArgs i) \<and> thread_start_ok e (WorkerThread i)) \<Longrightarrow>
   start_workers e i ctx w
     = (if 0 < i then Inr (ctx, mg_cry (CannotStartWorker (i + 1)) (worker_failed e i w))
        else abort_start ctx (mg_cry CannotCreateThreads (worker_failed e i w)))"
  by (subst start_workers.simps) (auto simp: Let_def worker_failed_def)

lemma record_worker_fields [simp]:
  "cfg_worker_threads (record_worker i ctx) = cfg_worker_threads ctx"
  "config (record_worker i ctx) = config ctx"
  "workerthreadids (record_worker i ctx)
     = map_option (\<lambda>ids. ids[i := True]) (workerthreadids ctx)"
  by (simp_all add: record_worker_def)

lemma start_workers_induct [case_names Done Started Failed]:
  assumes "\<And>i ctx w. cfg_worker_threads ctx \<le> i \<Longrightarrow> P i ctx w"
    and "\<And>i ctx w. i < cfg_worker_threads ctx \<Longrightarrow> alloc_ok e (WorkerArgs i) \<Longrightarrow>
           thread_start_ok e (WorkerThread i) \<Longrightarrow>
           P (Suc i) (record_worker i ctx) (worker_started i w) \<Longrightarrow> P i ctx w"
    and "\<And>i ctx w. i < cfg_worker_threads ctx \<Longrightarrow>
           \<not> (alloc_ok e (WorkerArgs i) \<and> thread_start_ok e (WorkerThread i)) \<Longrightarrow>
           P i ctx w"
  shows "P i ctx w"
proof (induction n \<equiv> "cfg_worker_threads ctx - i" arbitrary: i ctx w rule: less_induct)
  case (less i ctx w)
  show ?case
  proof (cases "i < cfg_worker_threads ctx")
    case False
    then have "cfg_worker_threads ctx \<le> i" by simp
    then show ?thesis by (rule assms(1))
  next
    case True
    show ?thesis
    proof (cases "alloc_ok e (WorkerArgs i) \<and> thread_start_ok e (WorkerThread i)")
      case False
      with True show ?thesis by (rule assms(3))
    next
      case ok: True
      have "cfg_worker_threads (record_worker i ctx) - Suc i < cfg_worker_threads ctx - i"
        using True by simp
      then have "P (Suc i) (record_worker i ctx) (worker_started i w)"
        by (rule less)
      with True ok show ?thesis by (blast intro: assms(2))
    qed
  qed
qed

lemma start_workers_ctx:
  "start_workers e i ctx w = Inr (ctx', w') \<Longrightarrow>
   cfg_worker_threads ctx' = cfg_worker_threads ctx \<and> config ctx' = config ctx
   \<and> map_option length (workerthreadids ctx') = map_option length (workerthreadids ctx)"
proof (induction i ctx w rule: start_workers_induct [where e = e])
  case (Done i ctx w)
  then show ?case by (simp add: start_workers_done)
next
  case (Started i ctx w)
  from Started.prems Started.hyps
  have "start_workers e (Suc i) (record_worker i ctx) (worker_started i w) = Inr (ctx', w')"
    by (simp add: start_workers_started)
  from Started.IH [OF this] show ?case
    by (cases "workerthreadids ctx") simp_all
next
  case (Failed i ctx w)
  from Failed.prems Failed.hyps show ?case
    by (simp add: start_workers_failed split: if_splits)
qed

lemma configure_Inl:
  assumes "configure b e options ctx w = Inl (r, w')"
  shows "r = ReturnedNULL"
proof (cases "case options of None \<Rightarrow> Inr (ctx, w)
              | Some opts \<Rightarrow> parse_options e (config_options b) opts ctx w")
  case (Inl x)
  with assms have "x = (r, w')" by (simp add: configure_def)
  with Inl show ?thesis
    using parse_options_Inl by (cases options) auto
next
  case (Inr y)
  with assms show ?thesis
    by (simp add: configure_def case_prod_unfold split: if_splits)
qed

lemma initialise_Inl:
  assumes "initialise b e callbacks options w = Inl (r, w')"
  shows "r = ReturnedNULL"
proof -
  consider (a) w0 where "initialise b e callbacks options w = Inl (ReturnedNULL, w0)"
    | (b) w1 where "initialise b e callbacks options w =
             configure b e options (store_callbacks callbacks (zeroed_context b)) w1"
    using initialise_cases by blast
  then show ?thesis
  proof cases
    case a
    with assms show ?thesis by simp
  next
    case b
    with assms show ?thesis by (simp add: configure_Inl)
  qed
qed

lemma prepare_Inl:
  assumes "prepare b e callbacks options w = Inl (r, w')"
  shows "r = ReturnedNULL"
proof (cases "initialise b e callbacks options w")
  case (Inl x)
  with assms initialise_Inl show ?thesis by (cases x) (simp add: prepare_def)
next
  case (Inr y)
  with assms show ?thesis
    by (cases y) (simp add: prepare_def resolve_settings_eq Let_def split: if_splits)
qed

lemma allocate_pool_Inl:
  assumes "allocate_pool b e ctx w = Inl (r, w')"
  shows "r \<noteq> Returned c"
proof (cases "config_at ctx (NUM_THREADS b)")
  case None
  with assms show ?thesis by (simp add: allocate_pool_def)
next
  case (Some s)
  show ?thesis
  proof (cases "alloc_ok e ClientWaitEvents")
    case True
    with assms Some show ?thesis
      by (cases "alloc_ok e ClientSocks")
         (auto simp: allocate_pool_def allocate_queue_arrays_def Let_def case_prod_unfold
           split: if_splits)
  next
    case False
    with assms Some show ?thesis
      by (auto simp: allocate_pool_def allocate_queue_arrays_def Let_def split: if_splits)
  qed
qed

lemma set_up_pool_Inl:
  assumes "set_up_pool b e callbacks ctx w = Inl (r, w')"
  shows "r \<noteq> Returned c"
proof (cases "allocate_pool b e ctx w")
  case (Inl x)
  with assms allocate_pool_Inl show ?thesis by (cases x) (simp add: set_up_pool_def)
next
  case (Inr y)
  with assms show ?thesis
    by (cases y)
       (auto simp: set_up_pool_def init_timers_def abort_start_def case_prod_unfold
          split: if_splits)
qed

lemma start_workers_Inl:
  "start_workers e i ctx w = Inl (r, w') \<Longrightarrow> r = ReturnedNULL"
proof (induction i ctx w rule: start_workers_induct [where e = e])
  case (Done i ctx w)
  then show ?case by (simp add: start_workers_done)
next
  case (Started i ctx w)
  then show ?case by (simp add: start_workers_started)
next
  case (Failed i ctx w)
  from Failed.prems Failed.hyps show ?case
    by (simp add: start_workers_failed split: if_splits)
qed

lemma mg_start_Returned:
  assumes "mg_start b e callbacks options w = (Returned ctx, w')"
  shows "\<exists>ctx1 w1 ctx2 w2 w3. prepare b e callbacks options w = Inr (ctx1, w1)
    \<and> set_up_pool b e callbacks ctx1 w1 = Inr (ctx2, w2)
    \<and> start_workers e 0 ctx2 w2 = Inr (ctx, w3)
    \<and> w' = pthread_setspecific False w3"
proof (cases "prepare b e callbacks options w")
  case (Inl x)
  obtain r0 w0 where x: "x = (r0, w0)" by (cases x)
  with Inl have "r0 = ReturnedNULL" using prepare_Inl by blast
  with assms Inl x show ?thesis by (simp add: mg_start_def before_workers_def)
next
  case (Inr y)
  obtain ctx1 w1 where y: "y = (ctx1, w1)" by (cases y)
  show ?thesis
  proof (cases "set_up_pool b e callbacks ctx1 w1")
    case (Inl x)
    obtain r0 w0 where x: "x = (r0, w0)" by (cases x)
    with Inl have "r0 \<noteq> Returned ctx" using set_up_pool_Inl by blast
    with assms Inr y Inl x show ?thesis by (simp add: mg_start_def before_workers_def)
  next
    case p: (Inr z)
    obtain ctx2 w2 where z: "z = (ctx2, w2)" by (cases z)
    show ?thesis
    proof (cases "start_workers e 0 ctx2 w2")
      case (Inl x)
      obtain r0 w0 where x: "x = (r0, w0)" by (cases x)
      with Inl have "r0 = ReturnedNULL" using start_workers_Inl by blast
      with assms Inr y p z Inl x show ?thesis by (simp add: mg_start_def before_workers_def)
    next
      case s: (Inr v)
      with assms Inr y p z show ?thesis
        by (cases v) (auto simp: mg_start_def before_workers_def)
    qed
  qed
qed

text \<open>
  C7: a worker count above \<open>MAX_WORKER_THREADS\<close> is reported and \<open>mg_start\<close> returns
  \<open>NULL\<close>. A start that succeeds has kept the count as configured: it is at most the
  maximum, \<open>cfg_worker_threads\<close> is that count and the worker-handle list, when there is
  one, has that length.
\<close>

theorem too_many_workers_rejected:
  assumes "mg_start b e callbacks options w = (r, w')"
  shows "(\<forall>ctx1 w1 s. prepare b e callbacks options w = Inr (ctx1, w1)
              \<and> config_at ctx1 (NUM_THREADS b) = Some s
              \<and> MAX_WORKER_THREADS b < atoi e s
            \<longrightarrow> r = ReturnedNULL \<and> cry w' = cry w1 @ [TooManyWorkerThreads]
                \<and> running w' = running w \<and> spawn_attempts w' = spawn_attempts w)
    \<and> (\<forall>ctx. r = Returned ctx
            \<longrightarrow> (\<exists>s. config_at ctx (NUM_THREADS b) = Some s
                    \<and> atoi e s \<le> MAX_WORKER_THREADS b
                    \<and> cfg_worker_threads ctx = nat (atoi e s))
                \<and> (case workerthreadids ctx of
                     None \<Rightarrow> cfg_worker_threads ctx = 0
                   | Some ids \<Rightarrow> length ids = cfg_worker_threads ctx
                       \<and> int (length ids) \<le> MAX_WORKER_THREADS b))"
proof (intro conjI allI impI)
  fix ctx1 w1 s
  assume a: "prepare b e callbacks options w = Inr (ctx1, w1)
    \<and> config_at ctx1 (NUM_THREADS b) = Some s \<and> MAX_WORKER_THREADS b < atoi e s"
  have "thread_view (final_world (prepare b e callbacks options w)) = thread_view w"
    by simp
  with a have v: "running w1 = running w" "spawn_attempts w1 = spawn_attempts w"
    by (simp_all add: thread_view_def)
  from a have "mg_start b e callbacks options w =
      (ReturnedNULL,
       pthread_setspecific False (free_context ctx1 (mg_cry TooManyWorkerThreads w1)))"
    by (simp add: mg_start_def before_workers_def set_up_pool_def allocate_pool_def
        abort_start_def)
  with assms v show "r = ReturnedNULL" "cry w' = cry w1 @ [TooManyWorkerThreads]"
    "running w' = running w" "spawn_attempts w' = spawn_attempts w"
    by auto
next
  fix ctx
  assume "r = Returned ctx"
  with assms obtain ctx1 w1 ctx2 w2 w3 where
    p: "prepare b e callbacks options w = Inr (ctx1, w1)"
    and q: "set_up_pool b e callbacks ctx1 w1 = Inr (ctx2, w2)"
    and t: "start_workers e 0 ctx2 w2 = Inr (ctx, w3)"
    using mg_start_Returned by blast
  from set_up_pool_Inr [OF q prepare_Inr(1,2) [OF p]] obtain s where
    s: "config_at ctx1 (NUM_THREADS b) = Some s" "atoi e s \<le> MAX_WORKER_THREADS b"
    "cfg_worker_threads ctx2 = nat (atoi e s)"
    "workerthreadids ctx2 =
       (if 0 < atoi e s then Some (replicate (nat (atoi e s)) False) else None)"
    "config ctx2 = config ctx1"
    by blast
  note k = start_workers_ctx [OF t]
  from k s(5) have "config_at ctx (NUM_THREADS b) = config_at ctx1 (NUM_THREADS b)"
    by (simp add: config_at_def)
  with s(1) have "config_at ctx (NUM_THREADS b) = Some s" by simp
  with k s show "\<exists>s. config_at ctx (NUM_THREADS b) = Some s
      \<and> atoi e s \<le> MAX_WORKER_THREADS b \<and> cfg_worker_threads ctx = nat (atoi e s)"
    by simp
  from k s show "case workerthreadids ctx of
      None \<Rightarrow> cfg_worker_threads ctx = 0
    | Some ids \<Rightarrow> length ids = cfg_worker_threads ctx
        \<and> int (length ids) \<le> MAX_WORKER_THREADS b"
    by (cases "workerthreadids ctx") (auto split: if_splits)
qed

theorem too_many_workers_rejected_witness:
  "fst (mg_start example_build all_ok None (Some [''num_threads'', ''70000'']) fresh_world)
     = ReturnedNULL
   \<and> cry (snd (mg_start example_build all_ok None (Some [''num_threads'', ''70000''])
                 fresh_world)) = [TooManyWorkerThreads]
   \<and> (\<exists>ctx. fst (mg_start example_build all_ok None (Some [''num_threads'', ''2''])
                   fresh_world) = Returned ctx
          \<and> cfg_worker_threads ctx = 2
          \<and> map_option length (workerthreadids ctx) = Some 2)"
proof -
  let ?c = "\<lparr>callbacks_init_context = False, callbacks_exit_context = False,
             config = [None, Some ''8080'', Some ''70000''], systemName = Some ''Linux'',
             cfg_worker_threads = 0, workerthreadids = None, client_wait_events = None,
             client_socks = None, masterthreadid = False, context_type = 0\<rparr>"
  let ?w = "fresh_world\<lparr>heap := [StringBlock ''Linux'', StringBlock ''8080'',
                                   StringBlock ''70000'', ContextBlock],
                        allocated := [ContextBlock, StringBlock ''70000'',
                                      StringBlock ''8080'', StringBlock ''Linux''],
                        called := [set_gpass_option, set_ssl_option, set_ports_option,
                                   set_uid_option, set_acl_option],
                        sTlsInit := 1, tls_keys := 1, tls_slot := True,
                        thread_idx_max := 1\<rparr>"
  have p: "prepare example_build all_ok None (Some [''num_threads'', ''70000'']) fresh_world
      = Inr (?c, ?w)"
    by (simp add: mg_start_unfold example_unfold)
  have c: "config_at ?c (NUM_THREADS example_build) = Some ''70000''"
    by (simp add: config_at_def example_build_def)
  have a: "MAX_WORKER_THREADS example_build < atoi all_ok ''70000''"
    by (simp add: example_unfold)
  have 1: "fst (mg_start example_build all_ok None (Some [''num_threads'', ''70000''])
                 fresh_world) = ReturnedNULL
     \<and> cry (snd (mg_start example_build all_ok None (Some [''num_threads'', ''70000''])
                 fresh_world)) = cry ?w @ [TooManyWorkerThreads]"
    using too_many_workers_rejected [OF surjective_pairing, THEN conjunct1, rule_format,
        of example_build all_ok None "Some [''num_threads'', ''70000'']" fresh_world
          ?c ?w "''70000''"] p c a
    by blast
  have r: "fst (mg_start example_build all_ok None (Some [''num_threads'', ''2''])
                 fresh_world)
      = Returned \<lparr>callbacks_init_context = False, callbacks_exit_context = False,
           config = [None, Some ''8080'', Some ''2''], systemName = Some ''Linux'',
           cfg_worker_threads = 2, workerthreadids = Some [True, True],
           client_wait_events = None, client_socks = None, masterthreadid = True,
           context_type = 1\<rparr>"
    by (simp add: mg_start_unfold example_unfold numeral_2_eq_2)
  have 2: "\<exists>ctx. fst (mg_start example_build all_ok None (Some [''num_threads'', ''2''])
                   fresh_world) = Returned ctx
          \<and> cfg_worker_threads ctx = 2
          \<and> map_option length (workerthreadids ctx) = Some 2"
    using too_many_workers_rejected [OF surjective_pairing, THEN conjunct2, rule_format,
        of example_build all_ok None "Some [''num_threads'', ''2'']" fresh_world, OF r]
    by (simp add: r)
  from 1 2 show ?thesis by (simp add: fresh_world_def)
qed

subsection \<open>C4: a later worker cannot be started\<close>

lemma fold_worker_started [simp]:
  "running (fold worker_started xs w) = running w @ map WorkerThread xs"
  "spawn_attempts (fold worker_started xs w) = spawn_attempts w @ map WorkerThread xs"
  "cry (fold worker_started xs w) = cry w"
  by (induction xs arbitrary: w, simp_all add: worker_started_def)+

lemma worker_failed_fields [simp]:
  "running (worker_failed e i w) = running w"
  "spawn_attempts (worker_failed e i w)
     = spawn_attempts w @ (if alloc_ok e (WorkerArgs i) then [WorkerThread i] else [])"
  "cry (worker_failed e i w) = cry w"
  by (simp_all add: worker_failed_def)

lemma fold_record_worker_cfg [simp]:
  "cfg_worker_threads (fold record_worker xs ctx) = cfg_worker_threads ctx"
  by (induction xs arbitrary: ctx) simp_all



lemma before_workers_Inr:
  assumes "before_workers b e callbacks options w = Inr (ctx, w')"
  shows "workerthreadids ctx =
      (if 0 < cfg_worker_threads ctx then Some (replicate (cfg_worker_threads ctx) False)
       else None)
    \<and> running w' = running w @ (if thread_start_ok e MasterThread then [MasterThread] else [])
    \<and> spawn_attempts w' = spawn_attempts w @ [MasterThread]"
proof -
  obtain ctx0 w0 where p: "prepare b e callbacks options w = Inr (ctx0, w0)"
    and q: "set_up_pool b e callbacks ctx0 w0 = Inr (ctx, w')"
    using assms by (auto simp: before_workers_def and_then_eq_Inr)
  have "thread_view (final_world (prepare b e callbacks options w)) = thread_view w"
    by simp
  with p have v: "running w0 = running w" "spawn_attempts w0 = spawn_attempts w"
    by (simp_all add: thread_view_def)
  from set_up_pool_Inr [OF q prepare_Inr(1,2) [OF p]] v show ?thesis by auto
qed



subsection \<open>C6: the configuration after a successful start\<close>

text \<open>
  C6 says that after a successful \<open>mg_start\<close> every option the caller named holds the
  caller's value. In the run below the caller names \<open>listening_ports\<close> with the value
  \<open>80\<close> and \<open>mg_strdup\<close> returns \<open>NULL\<close> for it. Line 142 stores that \<open>NULL\<close> untested,
  line 148 finds the slot empty and line 150 fills in the default: \<open>mg_start\<close> returns a
  running context whose \<open>listening_ports\<close> is \<open>8080\<close>, and nothing is logged. The
  allocations of lines 58, 200, 210 and 262 are tested, this one is not.
\<close>

theorem caller_value_lost_when_copy_fails:
  "mg_start example_build (all_ok\<lparr>alloc_ok := (\<lambda>r. r \<noteq> StringBlock ''80'')\<rparr>) None
     (Some [''listening_ports'', ''80'', ''num_threads'', ''1'']) fresh_world
   = (Returned
        \<lparr>callbacks_init_context = False, callbacks_exit_context = False,
         config = [None, Some ''8080'', Some ''1''], systemName = Some ''Linux'',
         cfg_worker_threads = 1, workerthreadids = Some [True], client_wait_events = None,
         client_socks = None, masterthreadid = True, context_type = 1\<rparr>,
      fresh_world
        \<lparr>heap := [WorkerArgs 0, WorkerThreadIds, StringBlock ''Linux'', StringBlock ''8080'',
                  StringBlock ''1'', ContextBlock],
         allocated := [ContextBlock, StringBlock ''1'', StringBlock ''8080'',
                       StringBlock ''Linux'', WorkerThreadIds, WorkerArgs 0],
         called := [set_gpass_option, set_ssl_option, set_ports_option, set_uid_option,
                    set_acl_option],
         running := [MasterThread, WorkerThread 0],
         spawn_attempts := [MasterThread, WorkerThread 0],
         sTlsInit := 1, tls_keys := 1, thread_idx_max := 1\<rparr>)"
  by (simp add: mg_start_unfold example_unfold)

subsection \<open>The configuration when every string is copied\<close>

lemma get_option_index_Some:
  "get_option_index t name = Some i \<Longrightarrow> i < length t \<and> fst (t ! i) = name"
  by (induction t arbitrary: i) (auto split: if_splits)

lemma get_option_index_inj:
  "get_option_index t a = Some i \<Longrightarrow> get_option_index t b = Some i \<Longrightarrow> a = b"
  using get_option_index_Some by blast

lemma last_supplied_Nil [simp]: "last_supplied t [] i = None"
  by (simp add: last_supplied_def)

lemma last_supplied_Cons2:
  "get_option_index t name = Some idx \<Longrightarrow>
   last_supplied t (name # val # opts) i =
     (case last_supplied t opts i of
        Some v \<Rightarrow> Some v
      | None \<Rightarrow> if idx = i then Some val else None)"
  by (auto simp: last_supplied_def split: list.splits)

lemma config_parse_options:
  "parse_options e t opts ctx w = Inr (ctx', w') \<Longrightarrow> length (config ctx) = length t \<Longrightarrow>
   i < length t \<Longrightarrow> \<forall>s. alloc_ok e (StringBlock s) \<Longrightarrow>
   config ctx' ! i = (case last_supplied t opts i of Some v \<Rightarrow> Some v | None \<Rightarrow> config ctx ! i)"
proof (induction opts ctx w rule: parse_options_induct [where t = t and e = e])
  case (Nil ctx w)
  then show ?case by simp
next
  case (Invalid name options ctx w)
  then show ?case by (simp add: parse_options_steps)
next
  case (NoValue name idx ctx w)
  then show ?case by (simp add: parse_options_steps)
next
  case (Store name idx val options ctx w)
  from Store.hyps have idx: "idx < length t" using get_option_index_Some by blast
  from Store.prems Store.hyps have
    "parse_options e t options (fst (store_option e name idx val ctx w))
       (snd (store_option e name idx val ctx w)) = Inr (ctx', w')"
    by (simp add: parse_options_steps)
  from Store.IH [OF this] Store.prems(2,3,4) have
    "config ctx' ! i =
       (case last_supplied t options i of
          Some v \<Rightarrow> Some v
        | None \<Rightarrow> (config ctx)[idx := Some val] ! i)"
    by (simp split: option.splits)
  with Store.hyps Store.prems(2,3) idx show ?case
    by (auto simp: last_supplied_Cons2 nth_list_update split: option.splits)
qed

lemma config_set_defaults:
  "k < length (config ctx) \<Longrightarrow> \<forall>s. alloc_ok e (StringBlock s) \<Longrightarrow>
   config (fst (set_defaults e tbl j ctx w)) ! k =
     (if j \<le> k \<and> k < j + length tbl
      then (case config ctx ! k of Some v \<Rightarrow> Some v | None \<Rightarrow> snd (tbl ! (k - j)))
      else config ctx ! k)"
proof (induction e tbl j ctx w rule: set_defaults.induct)
  case 1
  then show ?case by auto
next
  case (2 e name default_value table j ctx w)
  show ?case
  proof (cases "k = j")
    case True
    with 2 show ?thesis
      by (cases default_value; cases "config ctx ! j") simp_all
  next
    case False
    with 2 show ?thesis
      by (cases default_value; cases "config ctx ! j")
         (auto simp: nth_Cons' Suc_diff_le split: option.splits)
  qed
qed

lemma configure_config:
  assumes "configure b e options ctx w = Inr (ctx', w')"
    and "config ctx = replicate (length (config_options b)) None"
    and "i < length (config_options b)"
    and "\<forall>s. alloc_ok e (StringBlock s)"
  shows "config ctx' ! i = expected_config b options i"
proof -
  obtain ctx1 w1 where
    p: "(case options of None \<Rightarrow> Inr (ctx, w)
         | Some opts \<Rightarrow> parse_options e (config_options b) opts ctx w) = Inr (ctx1, w1)"
    and d: "ctx' = fst (set_defaults e (config_options b) 0 ctx1 w1)"
    using assms(1)
    by (auto simp: configure_def and_then_eq_Inr case_prod_unfold split: if_splits)
  have 1: "config ctx1 ! i = last_supplied (config_options b) (supplied_options options) i
      \<and> length (config ctx1) = length (config_options b)"
  proof (cases options)
    case None
    with p assms(2,3) show ?thesis by (auto simp: supplied_options_def)
  next
    case (Some opts)
    with p have q: "parse_options e (config_options b) opts ctx w = Inr (ctx1, w1)" by simp
    from config_parse_options [OF q _ assms(3,4)] parse_options_ctx [OF q] assms(2,3) Some
    show ?thesis by (simp add: supplied_options_def split: option.splits)
  qed
  with d assms(3,4) show ?thesis
    by (simp add: config_set_defaults expected_config_def split: option.splits)
qed

lemma initialise_config:
  assumes "initialise b e callbacks options w = Inr (ctx, w')"
    and "i < length (config_options b)"
    and "\<forall>s. alloc_ok e (StringBlock s)"
  shows "config ctx ! i = expected_config b options i"
proof -
  obtain w1 where
    c: "configure b e options (store_callbacks callbacks (zeroed_context b)) w1 = Inr (ctx, w')"
    using initialise_cases [of b e callbacks options w] assms(1) by auto
  have "config (store_callbacks callbacks (zeroed_context b))
      = replicate (length (config_options b)) None"
    by (simp add: store_callbacks_def zeroed_context_def split: option.splits)
  from configure_config [OF c this assms(2,3)] show ?thesis .
qed

text \<open>
  When no \<open>mg_strdup\<close> fails, a successful start has one slot for each option of the
  table; the slot of an option the caller named holds the value of its last occurrence,
  any other slot holds the default of the table (\<open>NULL\<close> when the option has no default).
\<close>

lemma configuration_when_strings_copied:
  assumes "mg_start b e callbacks options w = (Returned ctx, w')"
    and "\<forall>s. alloc_ok e (StringBlock s)"
  shows "length (config ctx) = length (config_options b)
    \<and> (\<forall>i < length (config_options b). config ctx ! i = expected_config b options i)"
proof -
  from assms(1) obtain ctx1 w1 ctx2 w2 w3 where
    p: "prepare b e callbacks options w = Inr (ctx1, w1)"
    and q: "set_up_pool b e callbacks ctx1 w1 = Inr (ctx2, w2)"
    and t: "start_workers e 0 ctx2 w2 = Inr (ctx, w3)"
    using mg_start_Returned by blast
  from p obtain ctx0 w0 where i: "initialise b e callbacks options w = Inr (ctx0, w0)"
    and r: "resolve_settings b e ctx0 w0 = Inr (ctx1, w1)"
    by (auto simp: prepare_def and_then_eq_Inr)
  from r have "config ctx1 = config ctx0"
    by (auto simp: resolve_settings_eq Let_def split: if_splits)
  moreover from set_up_pool_Inr [OF q prepare_Inr(1,2) [OF p]]
  have "config ctx2 = config ctx1" by blast
  moreover from start_workers_ctx [OF t] have "config ctx = config ctx2" by simp
  ultimately have "config ctx = config ctx0" by simp
  with initialise_config [OF i _ assms(2)] initialise_ctx [OF i] show ?thesis by simp
qed

subsection \<open>C8: an option named more than once\<close>

text \<open>
  C8 says that an option named twice gives a warning and ends with the value of its last
  occurrence. The caller names \<open>listening_ports\<close> with \<open>80\<close> and then with \<open>443\<close>. When
  \<open>mg_strdup\<close> returns \<open>NULL\<close> for \<open>443\<close>, the warning is logged and the copy of \<open>80\<close>
  is released, but line 142 stores the \<open>NULL\<close> and line 150 replaces it by the default:
  \<open>mg_start\<close> succeeds with \<open>listening_ports\<close> at \<open>8080\<close>, the last occurrence lost. When
  it returns \<open>NULL\<close> for \<open>80\<close>, the second occurrence finds the slot empty at line 138 and
  no warning is logged for the repeated name.
\<close>

theorem duplicate_option_when_copy_fails:
  "(let r = mg_start example_build (all_ok\<lparr>alloc_ok := (\<lambda>r. r \<noteq> StringBlock ''443'')\<rparr>) None
              (Some [''listening_ports'', ''80'', ''listening_ports'', ''443'',
                     ''num_threads'', ''1'']) fresh_world
    in (\<exists>ctx. fst r = Returned ctx \<and> config ctx = [None, Some ''8080'', Some ''1''])
       \<and> cry (snd r) = [DuplicateOption ''listening_ports'']
       \<and> allocated (snd r) = [ContextBlock, StringBlock ''80'', StringBlock ''1'',
                             StringBlock ''8080'', StringBlock ''Linux'', WorkerThreadIds,
                             WorkerArgs 0]
       \<and> heap (snd r) = [WorkerArgs 0, WorkerThreadIds, StringBlock ''Linux'',
                        StringBlock ''8080'', StringBlock ''1'', ContextBlock]
       \<and> double_frees (snd r) = [])
   \<and> (let r = mg_start example_build (all_ok\<lparr>alloc_ok := (\<lambda>r. r \<noteq> StringBlock ''80'')\<rparr>) None
              (Some [''listening_ports'', ''80'', ''listening_ports'', ''443'',
                     ''num_threads'', ''1'']) fresh_world
      in (\<exists>ctx. fst r = Returned ctx \<and> config ctx = [None, Some ''443'', Some ''1''])
         \<and> cry (snd r) = [])"
  by (simp add: mg_start_unfold example_unfold)

subsection \<open>Repeated options when every string is copied\<close>

lemma strings_list_member:
  "Some s \<in> set xs \<Longrightarrow>
   s \<in> set (concat (map (\<lambda>v. case v of None \<Rightarrow> [] | Some s \<Rightarrow> [s]) xs))"
  by (induction xs) auto

lemma strings_list_update:
  "i < length xs \<Longrightarrow>
   mset (concat (map (\<lambda>v. case v of None \<Rightarrow> [] | Some s \<Rightarrow> [s]) (xs[i := Some val])))
     = mset (concat (map (\<lambda>v. case v of None \<Rightarrow> [] | Some s \<Rightarrow> [s]) xs))
       - (case xs ! i of None \<Rightarrow> {#} | Some old \<Rightarrow> {#old#}) + {#val#}"
proof (induction xs arbitrary: i)
  case Nil
  then show ?case by simp
next
  case (Cons x xs)
  show ?case
  proof (cases i)
    case 0
    then show ?thesis by (cases x) simp_all
  next
    case (Suc j)
    with Cons.prems have j: "j < length xs" by simp
    show ?thesis
    proof (cases "xs ! j")
      case None
      with Cons.IH [OF j] Suc show ?thesis by simp
    next
      case (Some old)
      with j have "Some old \<in> set xs" by (metis nth_mem)
      then have "old \<in># mset (concat (map (\<lambda>v. case v of None \<Rightarrow> [] | Some s \<Rightarrow> [s]) xs))"
        using strings_list_member by fastforce
      with Cons.IH [OF j] Suc Some show ?thesis by simp
    qed
  qed
qed

lemma config_strings_store:
  "idx < length (config ctx) \<Longrightarrow>
   mset (config_strings (ctx\<lparr>config := (config ctx)[idx := Some val]\<rparr>))
     = mset (config_strings ctx)
       - (case config ctx ! idx of None \<Rightarrow> {#} | Some old \<Rightarrow> {#old#}) + {#val#}"
  by (simp add: config_strings_def strings_list_update)

lemma config_strings_member:
  assumes "idx < length (config ctx)" and "config ctx ! idx = Some old"
  shows "old \<in> set (config_strings ctx)"
proof -
  from assms have "Some old \<in> set (config ctx)" by (metis nth_mem)
  then show ?thesis unfolding config_strings_def by (rule strings_list_member)
qed

lemma store_option_heap:
  assumes "idx < length (config ctx)"
    and "mset (heap w) = H + image_mset StringBlock (mset (config_strings ctx))"
    and "\<forall>s. alloc_ok e (StringBlock s)"
  shows "mset (heap (snd (store_option e name idx val ctx w)))
      = H + image_mset StringBlock (mset (config_strings (fst (store_option e name idx val ctx w))))"
    and "double_frees (snd (store_option e name idx val ctx w)) = double_frees w"
proof -
  show "mset (heap (snd (store_option e name idx val ctx w)))
      = H + image_mset StringBlock (mset (config_strings (fst (store_option e name idx val ctx w))))"
  proof (cases "config ctx ! idx")
    case None
    with assms show ?thesis
      by (simp add: store_option_def Let_def config_strings_store)
  next
    case (Some old)
    with assms(1) have "old \<in># mset (config_strings ctx)"
      using config_strings_member by fastforce
    then have "image_mset StringBlock (mset (config_strings ctx) - {#old#})
        = image_mset StringBlock (mset (config_strings ctx)) - {#StringBlock old#}"
      by (simp add: image_mset_Diff)
    moreover have "StringBlock old \<in># image_mset StringBlock (mset (config_strings ctx))"
      using \<open>old \<in># mset (config_strings ctx)\<close> by simp
    ultimately show ?thesis
      using assms Some
      by (simp add: store_option_def Let_def config_strings_store del: fst_store_option)
  qed
  show "double_frees (snd (store_option e name idx val ctx w)) = double_frees w"
  proof (cases "config ctx ! idx")
    case None
    then show ?thesis by (simp add: store_option_def Let_def mg_strdup_def mg_alloc_def)
  next
    case (Some old)
    with assms(1) have "old \<in># mset (config_strings ctx)"
      using config_strings_member by fastforce
    with assms(2) have "StringBlock old \<in># mset (heap w)" by simp
    then have "StringBlock old \<in> set (heap w)" by simp
    with Some show ?thesis
      by (simp add: store_option_def Let_def mg_strdup_def mg_alloc_def mg_free_def mg_cry_def)
  qed
qed

lemma parse_options_heap:
  "parse_options e t opts ctx w = Inr (ctx', w') \<Longrightarrow> length (config ctx) = length t \<Longrightarrow>
   mset (heap w) = H + image_mset StringBlock (mset (config_strings ctx)) \<Longrightarrow>
   \<forall>s. alloc_ok e (StringBlock s) \<Longrightarrow>
   mset (heap w') = H + image_mset StringBlock (mset (config_strings ctx'))
   \<and> double_frees w' = double_frees w"
proof (induction opts ctx w rule: parse_options_induct [where t = t and e = e])
  case (Nil ctx w)
  then show ?case by simp
next
  case (Invalid name options ctx w)
  then show ?case by (simp add: parse_options_steps)
next
  case (NoValue name idx ctx w)
  then show ?case by (simp add: parse_options_steps)
next
  case (Store name idx val options ctx w)
  from Store.hyps Store.prems(2) have idx: "idx < length (config ctx)"
    using get_option_index_Some by fastforce
  from Store.prems(1) Store.hyps have
    "parse_options e t options (fst (store_option e name idx val ctx w))
       (snd (store_option e name idx val ctx w)) = Inr (ctx', w')"
    by (simp add: parse_options_steps)
  from Store.IH [OF this _ store_option_heap(1) [OF idx Store.prems(3,4)] Store.prems(4)]
    store_option_heap(2) [OF idx Store.prems(3,4)] Store.prems(2)
  show ?case by simp
qed

lemma set_defaults_heap:
  "j + length tbl \<le> length (config ctx) \<Longrightarrow>
   mset (heap w) = H + image_mset StringBlock (mset (config_strings ctx)) \<Longrightarrow>
   \<forall>s. alloc_ok e (StringBlock s) \<Longrightarrow>
   mset (heap (snd (set_defaults e tbl j ctx w)))
     = H + image_mset StringBlock (mset (config_strings (fst (set_defaults e tbl j ctx w))))
   \<and> double_frees (snd (set_defaults e tbl j ctx w)) = double_frees w
   \<and> cry (snd (set_defaults e tbl j ctx w)) = cry w"
proof (induction e tbl j ctx w rule: set_defaults.induct)
  case 1
  then show ?case by simp
next
  case (2 e name default_value table j ctx w)
  show ?case
  proof (cases default_value)
    case None
    with 2 show ?thesis by simp
  next
    case (Some d)
    show ?thesis
    proof (cases "config ctx ! j")
      case None
      from "2.prems" have j: "j < length (config ctx)" by simp
      have "mset (heap (snd (mg_strdup e d w)))
          = H + image_mset StringBlock
                  (mset (config_strings
                           (ctx\<lparr>config := (config ctx)[j := fst (mg_strdup e d w)]\<rparr>)))"
        using "2.prems"(2,3) None by (simp add: config_strings_store [OF j])
      from "2.IH"(2) [OF Some None _ this "2.prems"(3)] "2.prems"(1,3) Some None show ?thesis
        by simp
    next
      case (Some v)
      with 2 \<open>default_value = Some d\<close> show ?thesis by simp
    qed
  qed
qed

lemma cry_store_option:
  "cry (snd (store_option e name idx val ctx w))
     = cry w @ (if config ctx ! idx = None then [] else [DuplicateOption name])"
  by (simp add: store_option_def Let_def split: option.splits)

lemma parse_options_warnings:
  "parse_options e t opts ctx w = Inr (ctx', w') \<Longrightarrow> length (config ctx) = length t \<Longrightarrow>
   \<forall>s. alloc_ok e (StringBlock s) \<Longrightarrow>
   count_list (cry w') (DuplicateOption name)
     = count_list (cry w) (DuplicateOption name)
       + (if (case get_option_index t name of None \<Rightarrow> False | Some i \<Rightarrow> config ctx ! i \<noteq> None)
          then count_list (map fst (option_pairs opts)) name
          else count_list (map fst (option_pairs opts)) name - 1)"
proof (induction opts ctx w rule: parse_options_induct [where t = t and e = e])
  case (Nil ctx w)
  then show ?case by simp
next
  case (Invalid n options ctx w)
  then show ?case by (simp add: parse_options_steps)
next
  case (NoValue n idx ctx w)
  then show ?case by (simp add: parse_options_steps)
next
  case (Store n idx val options ctx w)
  from Store.hyps Store.prems(2) have idx: "idx < length (config ctx)"
    using get_option_index_Some by fastforce
  from Store.prems(1) Store.hyps have
    "parse_options e t options (fst (store_option e n idx val ctx w))
       (snd (store_option e n idx val ctx w)) = Inr (ctx', w')"
    by (simp add: parse_options_steps)
  moreover have "length (config (fst (store_option e n idx val ctx w))) = length t"
    using Store.prems(2) by simp
  moreover note Store.prems(3)
  ultimately have
    "count_list (cry w') (DuplicateOption name)
       = count_list (cry (snd (store_option e n idx val ctx w))) (DuplicateOption name)
         + (if (case get_option_index t name of
                  None \<Rightarrow> False
                | Some i \<Rightarrow> config (fst (store_option e n idx val ctx w)) ! i \<noteq> None)
            then count_list (map fst (option_pairs options)) name
            else count_list (map fst (option_pairs options)) name - 1)"
    by (rule Store.IH)
  moreover have "(case get_option_index t name of
             None \<Rightarrow> False
           | Some i \<Rightarrow> config (fst (store_option e n idx val ctx w)) ! i \<noteq> None)
      = (case get_option_index t name of
           None \<Rightarrow> False
         | Some i \<Rightarrow> (config ctx)[idx := Some val] ! i \<noteq> None)"
    using Store.prems(3) by (simp split: option.splits)
  moreover have "count_list (cry (snd (store_option e n idx val ctx w))) (DuplicateOption name)
      = count_list (cry w) (DuplicateOption name)
        + (if config ctx ! idx \<noteq> None \<and> n = name then 1 else 0)"
    by (simp add: cry_store_option)
  ultimately have ih:
    "count_list (cry w') (DuplicateOption name)
       = count_list (cry w) (DuplicateOption name)
         + (if config ctx ! idx \<noteq> None \<and> n = name then 1 else 0)
         + (if (case get_option_index t name of
                  None \<Rightarrow> False
                | Some i \<Rightarrow> (config ctx)[idx := Some val] ! i \<noteq> None)
            then count_list (map fst (option_pairs options)) name
            else count_list (map fst (option_pairs options)) name - 1)"
    by presburger
  show ?case
  proof (cases "n = name")
    case True
    with ih Store.hyps idx show ?thesis by simp
  next
    case False
    have "(case get_option_index t name of
             None \<Rightarrow> False
           | Some i \<Rightarrow> (config ctx)[idx := Some val] ! i \<noteq> None)
        = (case get_option_index t name of None \<Rightarrow> False | Some i \<Rightarrow> config ctx ! i \<noteq> None)"
    proof (cases "get_option_index t name")
      case None
      then show ?thesis by simp
    next
      case (Some i)
      with False Store.hyps have "i \<noteq> idx" using get_option_index_inj by blast
      with Some show ?thesis by simp
    qed
    with ih False show ?thesis by simp
  qed
qed

lemma configure_Inr:
  assumes "configure b e options ctx w = Inr (ctx', w')"
  shows "\<exists>ctx1 w1. (case options of None \<Rightarrow> Inr (ctx, w)
                     | Some opts \<Rightarrow> parse_options e (config_options b) opts ctx w)
                    = Inr (ctx1, w1)
    \<and> set_defaults e (config_options b) 0 ctx1 w1 = (ctx', w')"
proof (cases "case options of None \<Rightarrow> Inr (ctx, w)
              | Some opts \<Rightarrow> parse_options e (config_options b) opts ctx w")
  case (Inl x)
  with assms show ?thesis by (simp add: configure_def)
next
  case (Inr y)
  obtain ctx1 w1 where y: "y = (ctx1, w1)" by (cases y)
  obtain ctx2 w2 where s: "set_defaults e (config_options b) 0 ctx1 w1 = (ctx2, w2)"
    by (cases "set_defaults e (config_options b) 0 ctx1 w1")
  from assms Inr y s have "ctx2 = ctx' \<and> w2 = w'"
    by (simp add: configure_def split: if_splits)
  with Inr y s show ?thesis by simp
qed

text \<open>
  When no \<open>mg_strdup\<close> fails and lines 57--161 succeed, the log has one duplicate warning for a name for each
  occurrence after its first, the slot of a named option holds the value of its last
  occurrence, and the heap has grown by the context and by one string for each slot that
  is set: the value stored before a repeated option was released (and was live when it
  was).
\<close>

lemma repeated_options_when_strings_copied:
  assumes "initialise b e callbacks (Some opts) w = Inr (ctx, w')"
    and ok: "\<forall>s. alloc_ok e (StringBlock s)"
  shows "(\<forall>name. count_list (cry w') (DuplicateOption name)
            = count_list (cry w) (DuplicateOption name)
              + (count_list (map fst (option_pairs opts)) name - 1))
    \<and> (\<forall>i v. i < length (config_options b)
            \<and> last_supplied (config_options b) opts i = Some v
          \<longrightarrow> config ctx ! i = Some v)
    \<and> mset (heap w') = mset (heap w) + {#ContextBlock#}
                        + image_mset StringBlock (mset (config_strings ctx))
    \<and> double_frees w' = double_frees w"
proof -
  let ?t = "config_options b"
  let ?c0 = "store_callbacks callbacks (zeroed_context b)"
  obtain w1 where
    c: "configure b e (Some opts) ?c0 w1 = Inr (ctx, w')"
    and w1: "heap w1 = ContextBlock # heap w" "cry w1 = cry w" "double_frees w1 = double_frees w"
    using initialise_cases [of b e callbacks "Some opts" w] assms(1) by auto
  have c0: "config ?c0 = replicate (length ?t) None"
    by (simp add: store_callbacks_def zeroed_context_def split: option.splits)
  then have s0: "config_strings ?c0 = []"
    by (simp add: config_strings_def)
  obtain ctx1 w2 where p: "parse_options e ?t opts ?c0 w1 = Inr (ctx1, w2)"
    and sd: "set_defaults e ?t 0 ctx1 w2 = (ctx, w')"
    using configure_Inr [OF c] by auto
  from sd have d: "ctx = fst (set_defaults e ?t 0 ctx1 w2)" "w' = snd (set_defaults e ?t 0 ctx1 w2)"
    by simp_all
  have len: "length (config ?c0) = length ?t" using c0 by simp
  have h0: "mset (heap w1) = (mset (heap w) + {#ContextBlock#})
      + image_mset StringBlock (mset (config_strings ?c0))"
    using w1 s0 by simp
  note ph = parse_options_heap [OF p len h0 ok]
  from parse_options_ctx [OF p] len have len1: "0 + length ?t \<le> length (config ctx1)"
    by simp
  note dh = set_defaults_heap [OF len1 conjunct1 [OF ph] ok]
  have warn: "\<forall>name. count_list (cry w') (DuplicateOption name)
            = count_list (cry w) (DuplicateOption name)
              + (count_list (map fst (option_pairs opts)) name - 1)"
  proof
    fix name
    have "(case get_option_index ?t name of None \<Rightarrow> False | Some i \<Rightarrow> config ?c0 ! i \<noteq> None)
        = False"
      using c0 get_option_index_Some [of ?t name] by (auto split: option.splits)
    with parse_options_warnings [OF p len ok, of name] dh d w1
    show "count_list (cry w') (DuplicateOption name)
            = count_list (cry w) (DuplicateOption name)
              + (count_list (map fst (option_pairs opts)) name - 1)"
      by simp
  qed
  have last: "\<forall>i v. i < length ?t \<and> last_supplied ?t opts i = Some v
      \<longrightarrow> config ctx ! i = Some v"
    using initialise_config [OF assms(1) _ ok]
    by (simp add: expected_config_def supplied_options_def)
  from warn last dh d ph w1 show ?thesis by simp
qed

subsection \<open>The first worker, in general\<close>

text \<open>
  Whenever the first worker cannot be started, \<open>mg_start\<close> returns \<open>NULL\<close> and the
  threads running are those that ran when the loop was entered: a master thread started
  at line 256 is among them.
\<close>

lemma first_worker_failure:
  assumes "before_workers b e callbacks options w = Inr (ctx1, w1)"
    and "0 < cfg_worker_threads ctx1"
    and "\<not> (alloc_ok e (WorkerArgs 0) \<and> thread_start_ok e (WorkerThread 0))"
  shows "\<exists>w'. mg_start b e callbacks options w = (ReturnedNULL, w')
    \<and> cry w' = cry w1 @ [CannotCreateThreads]
    \<and> running w' = running w
         @ (if thread_start_ok e MasterThread then [MasterThread] else [])"
proof -
  have "start_workers e 0 ctx1 w1
      = abort_start ctx1 (mg_cry CannotCreateThreads (worker_failed e 0 w1))"
    using assms(2,3) by (simp add: start_workers_failed)
  with assms(1) have "mg_start b e callbacks options w
      = (ReturnedNULL,
         pthread_setspecific False
           (free_context ctx1 (mg_cry CannotCreateThreads (worker_failed e 0 w1))))"
    by (simp add: mg_start_def abort_start_def)
  with before_workers_Inr [OF assms(1)] show ?thesis by simp
qed

subsection \<open>The thread-local storage key, one call at a time\<close>

text \<open>
  A single call creates the key only when its increment of \<open>sTlsInit\<close> returns 1, and
  then once; any other call sleeps. How calls of several threads interleave is outside
  this model.
\<close>

lemma init_tls_gate:
  "tls_keys (final_world (init_tls e ctx w))
     = (if sTlsInit w + 1 = 1 \<and> pthread_key_create_ok e then Suc (tls_keys w) else tls_keys w)
   \<and> sleeps (final_world (init_tls e ctx w))
     = (if sTlsInit w + 1 = 1 then sleeps w else Suc (sleeps w))"
  by (simp add: init_tls_def Let_def)

end
